theory Spec2Isabelle
  imports Main
begin

section \<open>Python values\<close>

text \<open>
  The values that reach \<^verbatim>\<open>simple_parsing/helpers/fields.py\<close>: the arguments of
  \<^verbatim>\<open>choice\<close>, \<^verbatim>\<open>subgroups\<close> and \<^verbatim>\<open>field\<close> are untyped Python objects, and the
  code inspects them at run time (\<^verbatim>\<open>inspect.isclass\<close>, \<^verbatim>\<open>isinstance\<close>, \<^verbatim>\<open>in\<close>, \<^verbatim>\<open>==\<close>).

  \<^item> \<open>VMissing\<close> is the sentinel \<^verbatim>\<open>dataclasses.MISSING\<close>, the only instance of
    \<^verbatim>\<open>_MISSING_TYPE\<close>.
  \<^item> \<open>VDict\<close> is a \<^verbatim>\<open>dict\<close> as the list of its items in iteration order, which is
    insertion order; the \<^verbatim>\<open>OrderedDict\<close> of line 201 is one too, the code using only its
    dict operations. \<open>VDictKeys\<close> is the view returned by \<^verbatim>\<open>dict.keys()\<close>.
  \<^item> \<open>VEnumClass name members\<close> is a subclass of \<^verbatim>\<open>enum.Enum\<close> with the names of
    its members in declaration order (what iterating over the class yields);
    \<open>VEnumMember name member\<close> is the member \<open>member\<close> of the class \<open>name\<close>.
  \<^item> \<open>VClass name dc\<close> is any other class object; \<open>dc\<close> tells whether
    \<^verbatim>\<open>dataclasses.is_dataclass\<close> holds for it. Class objects are identified by name.
  \<^item> \<open>VFunction name\<close> is a callable supplied by the caller.
  \<^item> \<open>VEncodingFn d\<close> and \<open>VDecodingFn d\<close> are the closures \<^verbatim>\<open>_encoding_fn\<close> and
    \<^verbatim>\<open>_decoding_fn\<close> that \<^verbatim>\<open>choice\<close> creates, with the captured \<^verbatim>\<open>choice_dict\<close>.
\<close>

datatype pyval =
    VNone
  | VMissing
  | VBool bool
  | VInt int
  | VStr string
  | VList "pyval list"
  | VTuple "pyval list"
  | VDict "(pyval \<times> pyval) list"
  | VDictKeys "pyval list"
  | VEnumClass string "string list"
  | VEnumMember string string
  | VClass string bool
  | VFunction string
  | VEncodingFn "(pyval \<times> pyval) list"
  | VDecodingFn "(pyval \<times> pyval) list"

type_synonym pydict = "(pyval \<times> pyval) list"

text \<open>Keyword arguments collected by \<^verbatim>\<open>**kwargs\<close>: a dict with string keys.\<close>

type_synonym kwargs = "(string \<times> pyval) list"

datatype error =
    AssertionError string
  | ValueError string
  | RuntimeError string
  | TypeError string
  | AttributeError string
  | IndexError string

datatype warning = UserWarning string

text \<open>
  Python's \<^verbatim>\<open>==\<close>. \<^verbatim>\<open>bool\<close> is a subclass of \<^verbatim>\<open>int\<close>, so \<^verbatim>\<open>True == 1\<close>;
  sequences compare element by element; dicts compare as sets of items and key views as
  sets; every other object here (the sentinel, classes, plain enum members, functions)
  keeps the default comparison by identity.
\<close>

fun py_num :: "pyval \<Rightarrow> int option" where
  "py_num (VBool b) = Some (if b then 1 else 0)"
| "py_num (VInt i) = Some i"
| "py_num _ = None"

fun py_eq :: "pyval \<Rightarrow> pyval \<Rightarrow> bool"
  and py_eq_list :: "pyval list \<Rightarrow> pyval list \<Rightarrow> bool" where
  "py_eq (VList xs) y = (case y of VList ys \<Rightarrow> py_eq_list xs ys | _ \<Rightarrow> False)"
| "py_eq (VTuple xs) y = (case y of VTuple ys \<Rightarrow> py_eq_list xs ys | _ \<Rightarrow> False)"
| "py_eq (VDict d) y = (case y of VDict e \<Rightarrow> length d = length e \<and>
       list_all (\<lambda>(k, v). list_ex (\<lambda>(k', v'). py_eq k k' \<and> py_eq v v') e) d | _ \<Rightarrow> False)"
| "py_eq (VDictKeys xs) y = (case y of VDictKeys ys \<Rightarrow> length xs = length ys \<and>
       list_all (\<lambda>a. list_ex (\<lambda>b. py_eq a b) ys) xs | _ \<Rightarrow> False)"
| "py_eq x y = (case (py_num x, py_num y) of (Some a, Some b) \<Rightarrow> a = b | _ \<Rightarrow> x = y)"
| "py_eq_list [] ys = (ys = [])"
| "py_eq_list (x # xs) ys =
     (case ys of [] \<Rightarrow> False | y # ys' \<Rightarrow> py_eq x y \<and> py_eq_list xs ys')"

text \<open>
  \<^verbatim>\<open>hash(x)\<close> succeeds: lists, dicts and key views are unhashable, a tuple is hashable
  when its elements are. Looking an unhashable object up in a dict or a set raises
  \<^verbatim>\<open>TypeError\<close>.
\<close>

fun hashable :: "pyval \<Rightarrow> bool" where
  "hashable (VList xs) = False"
| "hashable (VDict d) = False"
| "hashable (VDictKeys xs) = False"
| "hashable (VTuple xs) = list_all hashable xs"
| "hashable _ = True"

text \<open>Truth value of an object, as \<^verbatim>\<open>if alias:\<close> tests it.\<close>

fun py_truthy :: "pyval \<Rightarrow> bool" where
  "py_truthy VNone = False"
| "py_truthy (VBool b) = b"
| "py_truthy (VInt i) = (i \<noteq> 0)"
| "py_truthy (VStr s) = (s \<noteq> [])"
| "py_truthy (VList xs) = (xs \<noteq> [])"
| "py_truthy (VTuple xs) = (xs \<noteq> [])"
| "py_truthy (VDict d) = (d \<noteq> [])"
| "py_truthy (VDictKeys xs) = (xs \<noteq> [])"
| "py_truthy _ = True"

subsection \<open>Dict operations\<close>

text \<open>\<^verbatim>\<open>d.get(k)\<close> for a hashable \<open>k\<close>: the value of the entry whose key equals \<open>k\<close>.\<close>

fun dict_get :: "pydict \<Rightarrow> pyval \<Rightarrow> pyval option" where
  "dict_get [] x = None"
| "dict_get ((k, v) # d) x = (if py_eq k x then Some v else dict_get d x)"

text \<open>\<^verbatim>\<open>k in d\<close>, \<^verbatim>\<open>k in d.keys()\<close> for a hashable \<open>k\<close>.\<close>

definition dict_contains :: "pydict \<Rightarrow> pyval \<Rightarrow> bool" where
  "dict_contains d x = list_ex (\<lambda>(k, v). py_eq k x) d"

text \<open>\<^verbatim>\<open>x in d.values()\<close>: a linear scan with \<^verbatim>\<open>==\<close>, no hashing.\<close>

definition values_contains :: "pydict \<Rightarrow> pyval \<Rightarrow> bool" where
  "values_contains d x = list_ex (\<lambda>(k, v). py_eq v x) d"

text \<open>
  \<^verbatim>\<open>d[k] = v\<close>: an existing entry keeps its key and its position and takes the new
  value, a new key is appended.
\<close>

fun dict_setitem :: "pydict \<Rightarrow> pyval \<Rightarrow> pyval \<Rightarrow> pydict" where
  "dict_setitem [] x w = [(x, w)]"
| "dict_setitem ((k, v) # d) x w =
     (if py_eq k x then (k, w) # d else (k, v) # dict_setitem d x w)"

text \<open>\<^verbatim>\<open>OrderedDict(items)\<close>: the items are inserted one after the other.\<close>

definition dict_of_items :: "(pyval \<times> pyval) list \<Rightarrow> pydict" where
  "dict_of_items items = foldl (\<lambda>d (k, v). dict_setitem d k v) [] items"

text \<open>The same on \<^verbatim>\<open>kwargs\<close>, whose keys are strings.\<close>

definition kw_get :: "kwargs \<Rightarrow> string \<Rightarrow> pyval option" where
  "kw_get kwargs name = map_of kwargs name"

fun kw_set :: "kwargs \<Rightarrow> string \<Rightarrow> pyval \<Rightarrow> kwargs" where
  "kw_set [] name w = [(name, w)]"
| "kw_set ((k, v) # kws) name w =
     (if k = name then (k, w) # kws else (k, v) # kw_set kws name w)"

definition kw_setdefault :: "kwargs \<Rightarrow> string \<Rightarrow> pyval \<Rightarrow> kwargs" where
  "kw_setdefault kwargs name w =
     (case kw_get kwargs name of Some v \<Rightarrow> kwargs | None \<Rightarrow> kwargs @ [(name, w)])"

text \<open>
  A keyword parameter with a default value, bound from \<^verbatim>\<open>**kwargs\<close>. The Python
  variable \<^verbatim>\<open>default\<close> is written \<open>dflt\<close> throughout, the name being a constant of
  HOL.
\<close>

definition kw_param :: "kwargs \<Rightarrow> string \<Rightarrow> pyval \<Rightarrow> pyval" where
  "kw_param kwargs name dflt = (case kw_get kwargs name of Some v \<Rightarrow> v | None \<Rightarrow> dflt)"

section \<open>\<^verbatim>\<open>field\<close>\<close>

text \<open>
  The object that \<^verbatim>\<open>dataclasses.field\<close> returns (standard library): it refuses a
  \<^verbatim>\<open>default\<close> together with a \<^verbatim>\<open>default_factory\<close> and stores the rest as given.
\<close>

record Field =
  field_default :: pyval
  field_default_factory :: pyval
  field_init :: pyval
  field_repr :: pyval
  field_hash :: pyval
  field_compare :: pyval
  field_metadata :: pydict

definition dataclasses_field ::
  "pyval \<Rightarrow> pyval \<Rightarrow> pyval \<Rightarrow> pyval \<Rightarrow> pyval \<Rightarrow> pyval \<Rightarrow> pydict \<Rightarrow> error + Field" where
  "dataclasses_field dflt default_factory init repr hash compare metadata =
     (if dflt \<noteq> VMissing \<and> default_factory \<noteq> VMissing
      then Inl (ValueError ''cannot specify both default and default_factory'')
      else Inr \<lparr>field_default = dflt, field_default_factory = default_factory,
                field_init = init, field_repr = repr, field_hash = hash,
                field_compare = compare, field_metadata = metadata\<rparr>)"

text \<open>
  \<^verbatim>\<open>default not in {MISSING, True}\<close> and \<^verbatim>\<open>default not in {MISSING, False}\<close>
  (lines 118 and 126): membership in a set hashes \<open>default\<close> first.
\<close>

definition in_missing_or :: "pyval \<Rightarrow> bool \<Rightarrow> bool" where
  "in_missing_or dflt b = (py_eq dflt VMissing \<or> py_eq dflt (VBool b))"

text \<open>
  Lines 113 to 131: what the \<^verbatim>\<open>action\<close> among the custom argparse arguments does to
  \<open>default\<close>.
\<close>

definition action_default :: "kwargs \<Rightarrow> pyval \<Rightarrow> error + pyval" where
  "action_default custom_argparse_args dflt =
     (let action = kw_param custom_argparse_args ''action'' VNone in
      if py_eq action (VStr ''store_false'') then
        (if \<not> hashable dflt then Inl (TypeError ''unhashable type'')
         else if \<not> in_missing_or dflt True
         then Inl (RuntimeError
           ''default should either not be passed or set to True when using the store_false action.'')
         else Inr (VBool True))
      else if py_eq action (VStr ''store_true'') then
        (if \<not> hashable dflt then Inl (TypeError ''unhashable type'')
         else if \<not> in_missing_or dflt False
         then Inl (RuntimeError
           ''default should either not be passed or set to False when using the store_true action.'')
         else Inr (VBool False))
      else Inr dflt)"

text \<open>Lines 102 to 114: the metadata dict that \<^verbatim>\<open>field\<close> fills in.\<close>

definition field_metadata_of ::
  "pydict \<Rightarrow> pyval \<Rightarrow> pyval \<Rightarrow> pyval \<Rightarrow> pyval \<Rightarrow> pyval \<Rightarrow> pyval \<Rightarrow> kwargs \<Rightarrow> pydict" where
  "field_metadata_of metadata alias cmd positional to_dict encoding_fn decoding_fn
       custom_argparse_args =
     (let m1 = (if py_truthy alias
                then dict_setitem metadata (VStr ''alias'')
                       (case alias of VList xs \<Rightarrow> alias | _ \<Rightarrow> VList [alias])
                else metadata);
          m2 = dict_setitem m1 (VStr ''to_dict'') to_dict;
          m3 = (if encoding_fn \<noteq> VNone
                then dict_setitem m2 (VStr ''encoding_fn'') encoding_fn else m2);
          m4 = (if decoding_fn \<noteq> VNone
                then dict_setitem m3 (VStr ''decoding_fn'') decoding_fn else m3);
          m5 = dict_setitem m4 (VStr ''cmd'') cmd;
          m6 = dict_setitem m5 (VStr ''positional'') positional
      in if custom_argparse_args \<noteq> []
         then dict_setitem m6 (VStr ''custom_args'')
                (VDict (map (\<lambda>(k, v). (VStr k, v)) custom_argparse_args))
         else m6)"

text \<open>
  \<^verbatim>\<open>field\<close>, lines 25 to 154. A \<open>metadata\<close> that is neither \<^verbatim>\<open>None\<close> nor a dict
  fails at the first statement that uses it: the item assignment of line 104 when
  \<open>alias\<close> is true, the \<^verbatim>\<open>update\<close> of line 105 otherwise.
\<close>

definition field ::
  "pyval \<Rightarrow> pyval \<Rightarrow> pyval \<Rightarrow> pyval \<Rightarrow> pyval \<Rightarrow> pyval \<Rightarrow> pyval \<Rightarrow> pyval \<Rightarrow> pyval \<Rightarrow> pyval
     \<Rightarrow> pyval \<Rightarrow> pyval \<Rightarrow> pyval \<Rightarrow> kwargs \<Rightarrow> error + Field" where
  "field dflt alias cmd positional to_dict encoding_fn decoding_fn default_factory
       init repr hash compare metadata custom_argparse_args =
     (case (if metadata \<noteq> VNone then metadata else VDict []) of
        VDict m0 \<Rightarrow>
          (let m = field_metadata_of m0 alias cmd positional to_dict encoding_fn decoding_fn
                     custom_argparse_args
           in case (if custom_argparse_args \<noteq> []
                    then action_default custom_argparse_args dflt else Inr dflt) of
                Inl e \<Rightarrow> Inl e
              | Inr default1 \<Rightarrow>
                  if default1 \<noteq> VMissing then
                    dataclasses_field default1 VMissing init repr hash compare m
                  else if default_factory \<noteq> VMissing then
                    dataclasses_field VMissing default_factory init repr hash compare m
                  else dataclasses_field VMissing VMissing init repr hash compare m)
      | _ \<Rightarrow>
          if py_truthy alias then Inl (TypeError ''object does not support item assignment'')
          else Inl (AttributeError ''object has no attribute update''))"

text \<open>
  The call \<^verbatim>\<open>field(default=default, choices=choices, **kwargs)\<close> of line 248: a key
  \<^verbatim>\<open>choices\<close> in \<open>kwargs\<close> repeats the explicit keyword, which is a \<^verbatim>\<open>TypeError\<close>; the
  keys that name a parameter of \<^verbatim>\<open>field\<close> are bound to it, and the rest, after
  \<^verbatim>\<open>choices\<close>, is \<^verbatim>\<open>custom_argparse_args\<close>. The key \<^verbatim>\<open>default\<close> never occurs in
  \<open>kwargs\<close>: Python binds that keyword to the parameter of \<^verbatim>\<open>choice\<close>.
\<close>

definition field_params :: "string list" where
  "field_params = [''default'', ''alias'', ''cmd'', ''positional'', ''to_dict'',
     ''encoding_fn'', ''decoding_fn'', ''default_factory'', ''init'', ''repr'', ''hash'',
     ''compare'', ''metadata'']"

definition call_field :: "pyval \<Rightarrow> pyval \<Rightarrow> kwargs \<Rightarrow> error + Field" where
  "call_field dflt choices kwargs =
     (if kw_get kwargs ''choices'' \<noteq> None
      then Inl (TypeError ''got multiple values for keyword argument'')
      else field dflt
             (kw_param kwargs ''alias'' VNone)
             (kw_param kwargs ''cmd'' (VBool True))
             (kw_param kwargs ''positional'' (VBool False))
             (kw_param kwargs ''to_dict'' (VBool True))
             (kw_param kwargs ''encoding_fn'' VNone)
             (kw_param kwargs ''decoding_fn'' VNone)
             (kw_param kwargs ''default_factory'' VMissing)
             (kw_param kwargs ''init'' (VBool True))
             (kw_param kwargs ''repr'' (VBool True))
             (kw_param kwargs ''hash'' VNone)
             (kw_param kwargs ''compare'' (VBool True))
             (kw_param kwargs ''metadata'' VNone)
             ((''choices'', choices) # filter (\<lambda>(k, v). k \<notin> set field_params) kwargs))"

section \<open>\<^verbatim>\<open>choice\<close>\<close>

text \<open>
  The closures of lines 228 to 246, with the captured \<^verbatim>\<open>choice_dict\<close> as first
  argument. \<^verbatim>\<open>value in choice_dict.keys()\<close> and \<^verbatim>\<open>choice_dict.get(value, value)\<close>
  hash \<open>value\<close>.
\<close>

definition choice_encoding_fn :: "pydict \<Rightarrow> pyval \<Rightarrow> error + pyval" where
  "choice_encoding_fn choice_dict value =
     (if \<not> hashable value then Inl (TypeError ''unhashable type'')
      else if dict_contains choice_dict value then Inr value
      else if values_contains choice_dict value then
        (case map fst (filter (\<lambda>(k, v). py_eq v value) choice_dict) of
           [] \<Rightarrow> Inl (IndexError ''list index out of range'')
         | k # ks \<Rightarrow> Inr k)
      else Inr value)"

definition choice_decoding_fn :: "pydict \<Rightarrow> pyval \<Rightarrow> error + pyval" where
  "choice_decoding_fn choice_dict value =
     (if \<not> hashable value then Inl (TypeError ''unhashable type'')
      else case dict_get choice_dict value of Some v \<Rightarrow> Inr v | None \<Rightarrow> Inr value)"

text \<open>\<^verbatim>\<open>isinstance(default, choice_enum)\<close> for the enum class named \<open>cls\<close>.\<close>

fun isinstance_enum :: "pyval \<Rightarrow> string \<Rightarrow> bool" where
  "isinstance_enum (VEnumMember en m) cls = (en = cls)"
| "isinstance_enum _ cls = False"

text \<open>
  Lines 198 to 215: an enum class becomes the ordered dict from member names to members,
  and a default that is not a member is looked up among the names. The result is the new
  \<open>choices\<close> and the new \<open>default\<close>, with the warnings emitted.
\<close>

definition choice_enum :: "pyval \<Rightarrow> pyval \<Rightarrow> warning list \<times> (error + pyval \<times> pyval)" where
  "choice_enum choices dflt =
     (case choices of
        VEnumClass cls names \<Rightarrow>
          (let choices1 = dict_of_items (map (\<lambda>n. (VStr n, VEnumMember cls n)) names) in
           if dflt \<noteq> VMissing \<and> \<not> isinstance_enum dflt cls then
             (if \<not> hashable dflt then ([], Inl (TypeError ''unhashable type''))
              else case dict_get choices1 dflt of
                Some member \<Rightarrow>
                  ([UserWarning ''Setting default could perhaps be ambiguous (enum names vs enum values). Consider using the enum value instead.''],
                   Inr (VDict choices1, member))
              | None \<Rightarrow> ([], Inl (ValueError ''default arg should be of the enum type'')))
           else ([], Inr (VDict choices1, dflt)))
      | _ \<Rightarrow> ([], Inr (choices, dflt)))"

text \<open>
  Lines 217 to 246: a dict of choices is saved in the metadata, its keys become the
  choices, and the two closures are the encoding and decoding functions unless the caller
  passed their own. The result is the new \<open>choices\<close> and the new \<open>kwargs\<close>.
\<close>

definition choice_dict :: "pyval \<Rightarrow> kwargs \<Rightarrow> error + pyval \<times> kwargs" where
  "choice_dict choices kwargs =
     (case choices of
        VDict cd \<Rightarrow>
          (let kwargs1 = kw_setdefault kwargs ''metadata'' (VDict []) in
           case kw_get kwargs1 ''metadata'' of
             Some (VDict metadata) \<Rightarrow>
               (let kwargs2 = kw_set kwargs1 ''metadata''
                      (VDict (dict_setitem metadata (VStr ''choice_dict'') (VDict cd)));
                    kwargs3 = kw_setdefault kwargs2 ''encoding_fn'' (VEncodingFn cd);
                    kwargs4 = kw_setdefault kwargs3 ''decoding_fn'' (VDecodingFn cd)
                in Inr (VList (map fst cd), kwargs4))
           | _ \<Rightarrow> Inl (TypeError ''object does not support item assignment''))
      | _ \<Rightarrow> Inr (choices, kwargs))"

text \<open>
  \<^verbatim>\<open>choice(*choices, default=MISSING, **kwargs)\<close>, lines 173 to 248. The positional
  arguments arrive as a tuple; the result is the field, or the exception raised, together
  with the warnings emitted on the way.
\<close>

fun choice :: "pyval list \<Rightarrow> pyval \<Rightarrow> kwargs \<Rightarrow> warning list \<times> (error + Field)" where
  "choice [] dflt kwargs =
     ([], Inl (AssertionError ''Choice requires at least one positional argument!''))"
| "choice [c] dflt kwargs =
     (case choice_enum c dflt of
        (ws, Inl e) \<Rightarrow> (ws, Inl e)
      | (ws, Inr (choices1, default1)) \<Rightarrow>
          (case choice_dict choices1 kwargs of
             Inl e \<Rightarrow> (ws, Inl e)
           | Inr (choices2, kwargs2) \<Rightarrow> (ws, call_field default1 choices2 kwargs2)))"
| "choice choices dflt kwargs = ([], call_field dflt (VTuple choices) kwargs)"

section \<open>\<^verbatim>\<open>subgroups\<close>\<close>

text \<open>\<^verbatim>\<open>inspect.isclass(subgroup) and dataclasses.is_dataclass(subgroup)\<close>.\<close>

fun is_dataclass_class :: "pyval \<Rightarrow> bool" where
  "is_dataclass_class (VClass name dc) = dc"
| "is_dataclass_class _ = False"

text \<open>
  Lines 432 to 435: the keys whose value is \<open>default_factory\<close>, by identity first and by
  \<^verbatim>\<open>==\<close> when identity finds none. The values are class objects here (line 402 has
  passed), and a class object is identical to \<open>default_factory\<close> exactly when it is the
  same value of the model.
\<close>

definition matching_keys :: "pydict \<Rightarrow> pyval \<Rightarrow> pyval list" where
  "matching_keys subgroups' default_factory =
     (let by_identity = map fst (filter (\<lambda>(k, v). v = default_factory) subgroups') in
      if by_identity = []
      then map fst (filter (\<lambda>(k, v). py_eq v default_factory) subgroups')
      else by_identity)"

text \<open>
  Lines 423 to 447: the three cases of the default. The result is the new \<open>default\<close>,
  the new \<open>default_factory\<close> and the metadata with its entry \<^verbatim>\<open>subgroup_default\<close>.
\<close>

definition subgroup_default ::
  "pydict \<Rightarrow> pyval \<Rightarrow> pyval \<Rightarrow> pydict \<Rightarrow> error + pyval \<times> pyval \<times> pydict" where
  "subgroup_default subgroups' dflt default_factory metadata =
     (if dflt \<noteq> VMissing then
        (case dict_get subgroups' dflt of
           None \<Rightarrow> Inl (AssertionError [])
         | Some v \<Rightarrow>
             Inr (VMissing, v, dict_setitem metadata (VStr ''subgroup_default'') dflt))
      else if default_factory \<noteq> VMissing then
        (if \<not> values_contains subgroups' default_factory then Inl (AssertionError [])
         else case matching_keys subgroups' default_factory of
           [] \<Rightarrow> Inl (AssertionError [])
         | [k] \<Rightarrow>
             Inr (dflt, default_factory, dict_setitem metadata (VStr ''subgroup_default'') k)
         | _ \<Rightarrow> Inl (ValueError
             ''Default subgroup is found more than once in the subgroups dict?''))
      else Inr (dflt, default_factory,
                dict_setitem metadata (VStr ''subgroup_default'') VMissing))"

text \<open>
  \<^verbatim>\<open>subgroups(subgroups, *args, default=MISSING, default_factory=MISSING, **kwargs)\<close>,
  lines 372 to 449. The parameter \<^verbatim>\<open>subgroups\<close> is written \<open>subgroups'\<close>. The metadata
  dict is the object stored in \<open>kwargs\<close>, so the assignments to it are seen by
  \<^verbatim>\<open>choice\<close>. The builtin \<^verbatim>\<open>str\<close> is the class \<open>VClass ''str'' False\<close>.
\<close>

definition subgroups ::
  "pydict \<Rightarrow> pyval list \<Rightarrow> pyval \<Rightarrow> pyval \<Rightarrow> kwargs \<Rightarrow> warning list \<times> (error + Field)" where
  "subgroups subgroups' args dflt default_factory kwargs =
     (if \<not> list_all is_dataclass_class (map snd subgroups')
      then ([], Inl (ValueError ''All values in the subgroups dict need to be dataclasses!''))
      else
        (let kwargs1 = kw_setdefault kwargs ''metadata'' (VDict []) in
         case kw_get kwargs1 ''metadata'' of
           Some (VDict metadata0) \<Rightarrow>
             (let metadata1 = dict_setitem metadata0 (VStr ''subgroups'') (VDict subgroups');
                  metadata2 = dict_setitem metadata1 (VStr ''subgroup_default'') dflt;
                  choices = VDictKeys (map fst subgroups');
                  kwargs2 = kw_set kwargs1 ''type'' (VClass ''str'' False)
              in
              if default_factory \<noteq> VMissing \<and> dflt \<noteq> VMissing
              then ([], Inl (ValueError ''Can't pass both default and default_factory!''))
              else if dflt \<noteq> VMissing \<and> \<not> hashable dflt
              then ([], Inl (TypeError ''unhashable type''))
              else if dflt \<noteq> VMissing \<and> \<not> dict_contains subgroups' dflt
              then ([], Inl (ValueError ''default must be a key in the subgroups dict!''))
              else if default_factory \<noteq> VMissing
                      \<and> \<not> values_contains subgroups' default_factory
              then ([], Inl (ValueError
                     ''default_factory must be a value in the subgroups dict!''))
              else
                (case subgroup_default subgroups' dflt default_factory metadata2 of
                   Inl e \<Rightarrow> ([], Inl e)
                 | Inr (dflt1, default_factory1, metadata3) \<Rightarrow>
                     choice (choices # args) dflt1
                       ((''default_factory'', default_factory1)
                        # kw_set kwargs2 ''metadata'' (VDict metadata3))))
         | _ \<Rightarrow> ([], Inl (TypeError ''object does not support item assignment''))))"

section \<open>Reading the result\<close>

text \<open>
  The canonical choices of a field are the entry \<^verbatim>\<open>choices\<close> of the dict stored under
  \<^verbatim>\<open>custom_args\<close> in its metadata; the other entries of the metadata are read by key.
\<close>

definition field_choices :: "Field \<Rightarrow> pyval option" where
  "field_choices f =
     (case dict_get (field_metadata f) (VStr ''custom_args'') of
        Some (VDict custom_args) \<Rightarrow> dict_get custom_args (VStr ''choices'')
      | _ \<Rightarrow> None)"

definition metadata_get :: "Field \<Rightarrow> string \<Rightarrow> pyval option" where
  "metadata_get f name = dict_get (field_metadata f) (VStr name)"

section \<open>Conditions on the keyword arguments\<close>

text \<open>
  The caller's metadata dict: empty when the keyword \<^verbatim>\<open>metadata\<close> is absent, the dict when
  it is one. Any other value of the keyword, \<^verbatim>\<open>None\<close> included, makes the item
  assignments of lines 223, 408 and 409 raise \<^verbatim>\<open>TypeError\<close>.
\<close>

definition kw_metadata :: "kwargs \<Rightarrow> pydict option" where
  "kw_metadata kwargs =
     (case kw_get kwargs ''metadata'' of
        None \<Rightarrow> Some []
      | Some (VDict m) \<Rightarrow> Some m
      | Some _ \<Rightarrow> None)"

text \<open>
  The keyword \<^verbatim>\<open>action\<close> is neither \<^verbatim>\<open>"store_true"\<close> nor \<^verbatim>\<open>"store_false"\<close>, the two
  values for which \<^verbatim>\<open>field\<close> replaces the default (lines 116 to 131).
\<close>

definition no_store_action :: "kwargs \<Rightarrow> bool" where
  "no_store_action kwargs =
     (kw_get kwargs ''action'' \<noteq> Some (VStr ''store_true'')
      \<and> kw_get kwargs ''action'' \<noteq> Some (VStr ''store_false''))"

text \<open>
  The field that \<^verbatim>\<open>field\<close> returns for the default \<open>d1\<close>, the metadata dict \<open>m0\<close>, the
  encoding and decoding functions \<open>enc\<close> and \<open>dec\<close> and the choices, its other parameters
  bound from \<open>kwargs\<close>.
\<close>

definition field_of_kwargs ::
  "pyval \<Rightarrow> pydict \<Rightarrow> pyval \<Rightarrow> pyval \<Rightarrow> kwargs \<Rightarrow> pyval \<Rightarrow> Field" where
  "field_of_kwargs d1 m0 enc dec kwargs choices =
     \<lparr>field_default = d1,
      field_default_factory =
        (if d1 \<noteq> VMissing then VMissing else kw_param kwargs ''default_factory'' VMissing),
      field_init = kw_param kwargs ''init'' (VBool True),
      field_repr = kw_param kwargs ''repr'' (VBool True),
      field_hash = kw_param kwargs ''hash'' VNone,
      field_compare = kw_param kwargs ''compare'' (VBool True),
      field_metadata =
        field_metadata_of m0 (kw_param kwargs ''alias'' VNone)
          (kw_param kwargs ''cmd'' (VBool True))
          (kw_param kwargs ''positional'' (VBool False))
          (kw_param kwargs ''to_dict'' (VBool True)) enc dec
          ((''choices'', choices) # filter (\<lambda>(k, v). k \<notin> set field_params) kwargs)\<rparr>"

text \<open>
  The keyword arguments of the call of \<^verbatim>\<open>choice\<close> at line 449: the default factory, then
  the keyword arguments of \<^verbatim>\<open>subgroups\<close> with \<^verbatim>\<open>type\<close> set to \<^verbatim>\<open>str\<close> and with the
  metadata dict as the assignments have left it.
\<close>

definition subgroups_kwargs :: "kwargs \<Rightarrow> pyval \<Rightarrow> pydict \<Rightarrow> kwargs" where
  "subgroups_kwargs kwargs default_factory metadata =
     (''default_factory'', default_factory)
     # kw_set (kw_set (kw_setdefault kwargs ''metadata'' (VDict [])) ''type''
         (VClass ''str'' False)) ''metadata'' (VDict metadata)"

text \<open>
  The choices of a field made by \<^verbatim>\<open>subgroups\<close>: the key view of the dict, or the tuple
  of the positional arguments of the call of line 449 when \<open>args\<close> is not empty.
\<close>

definition subgroups_choices :: "pydict \<Rightarrow> pyval list \<Rightarrow> pyval" where
  "subgroups_choices subgroups' args =
     (if args = [] then VDictKeys (map fst subgroups')
      else VTuple (VDictKeys (map fst subgroups') # args))"

text \<open>
  What a call resolves to: the warnings, and either the exception or the canonical
  choices with the resolved default and default factory; for \<^verbatim>\<open>subgroups\<close> also the
  resolved default key, the metadata entry \<^verbatim>\<open>subgroup_default\<close>.
\<close>

definition resolution ::
  "warning list \<times> (error + Field) \<Rightarrow> warning list \<times> (error + pyval option \<times> pyval \<times> pyval)" where
  "resolution r =
     (fst r, case snd r of
               Inl e \<Rightarrow> Inl e
             | Inr f \<Rightarrow> Inr (field_choices f, field_default f, field_default_factory f))"

definition subgroups_resolution ::
  "warning list \<times> (error + Field)
     \<Rightarrow> warning list \<times> (error + pyval option \<times> pyval option \<times> pyval \<times> pyval)" where
  "subgroups_resolution r =
     (fst r, case snd r of
               Inl e \<Rightarrow> Inl e
             | Inr f \<Rightarrow> Inr (field_choices f, metadata_get f ''subgroup_default'',
                             field_default f, field_default_factory f))"

text \<open>
  Two calls get the same keyword arguments, or keyword arguments that differ in the
  contents of the metadata dict only. The metadata dict is the one argument that
  \<^verbatim>\<open>choice\<close>, \<^verbatim>\<open>subgroups\<close> and \<^verbatim>\<open>field\<close> write to (lines 104 to 114, 223, 408 to 447),
  so a caller who passes the same dict object to a second call passes the contents that
  the first call has left.
\<close>

definition same_but_metadata :: "kwargs \<Rightarrow> kwargs \<Rightarrow> bool" where
  "same_but_metadata kwargs kwargs' =
     (kwargs' = kwargs
      \<or> (\<exists>kw m m'. kwargs = kw_set kw ''metadata'' (VDict m)
                   \<and> kwargs' = kw_set kw ''metadata'' (VDict m')))"

section \<open>Equality, dicts and keyword arguments\<close>

lemma py_eq_VStr_left [simp]: "py_eq (VStr s) y = (y = VStr s)"
  by (cases y) auto

lemma py_eq_VStr_right [simp]: "py_eq x (VStr s) = (x = VStr s)"
  by (cases x) (auto split: pyval.splits)

lemma py_eq_list_refl: "(\<And>x. x \<in> set xs \<Longrightarrow> py_eq x x) \<Longrightarrow> py_eq_list xs xs"
  by (induction xs) auto

lemma py_eq_refl [simp]: "py_eq x x"
proof (induction x)
  case (VDict d)
  then show ?case by (fastforce simp: list_all_iff list_ex_iff)
next
  case (VDictKeys xs)
  then show ?case by (auto simp: list_all_iff list_ex_iff)
qed (auto simp: py_eq_list_refl)

lemma dict_get_setitem_str [simp]:
  "dict_get (dict_setitem d (VStr a) w) (VStr b) =
     (if a = b then Some w else dict_get d (VStr b))"
  by (induction d) auto

lemma dict_contains_get: "dict_contains d x = (dict_get d x \<noteq> None)"
  by (induction d) (auto simp: dict_contains_def)

lemma kw_get_kw_set [simp]:
  "kw_get (kw_set kws n w) n' = (if n = n' then Some w else kw_get kws n')"
  by (induction kws) (auto simp: kw_get_def)

lemma kw_get_kw_setdefault [simp]:
  "kw_get (kw_setdefault kws n w) n' =
     (case kw_get kws n' of Some v \<Rightarrow> Some v | None \<Rightarrow> if n = n' then Some w else None)"
  by (induction kws) (auto simp: kw_setdefault_def kw_get_def split: option.splits)

lemma kw_get_Nil [simp]: "kw_get [] n = None"
  by (simp add: kw_get_def)

lemma kw_get_Cons [simp]:
  "kw_get ((k, v) # kws) n = (if k = n then Some v else kw_get kws n)"
  by (simp add: kw_get_def)

lemma filter_kw_set:
  "n \<in> S \<Longrightarrow>
   filter (\<lambda>(k, v). k \<notin> S) (kw_set kws n w) = filter (\<lambda>(k, v). k \<notin> S) kws"
  by (induction kws) (auto split: if_splits)

lemma filter_kw_setdefault:
  "n \<in> S \<Longrightarrow>
   filter (\<lambda>(k, v). k \<notin> S) (kw_setdefault kws n w) = filter (\<lambda>(k, v). k \<notin> S) kws"
  by (auto simp: kw_setdefault_def split: option.splits)

lemma kw_get_filter:
  "kw_get (filter (\<lambda>(k, v). k \<notin> S) kws) n = (if n \<in> S then None else kw_get kws n)"
  by (induction kws) (auto simp: kw_get_def)

lemma kw_metadata_cases:
  assumes "kw_metadata kwargs = Some m0"
  shows "kw_get kwargs ''metadata'' = None \<and> m0 = []
         \<or> kw_get kwargs ''metadata'' = Some (VDict m0)"
  using assms by (auto simp: kw_metadata_def split: option.splits pyval.splits)

lemma kw_metadata_None:
  assumes "kw_metadata kwargs = None"
  shows "\<exists>v. kw_get kwargs ''metadata'' = Some v \<and> (\<forall>m. v \<noteq> VDict m)"
  using assms by (auto simp: kw_metadata_def split: option.splits pyval.splits)

section \<open>What \<^verbatim>\<open>field\<close> returns\<close>

lemma metadata_of_get_other:
  "name \<notin> {''alias'', ''to_dict'', ''encoding_fn'', ''decoding_fn'', ''cmd'', ''positional'',
      ''custom_args''} \<Longrightarrow>
   dict_get (field_metadata_of m0 alias cmd positional to_dict encoding_fn decoding_fn custom)
     (VStr name) = dict_get m0 (VStr name)"
  by (auto simp: field_metadata_of_def Let_def)

lemma metadata_of_get_custom_args:
  "custom \<noteq> [] \<Longrightarrow>
   dict_get (field_metadata_of m0 alias cmd positional to_dict encoding_fn decoding_fn custom)
     (VStr ''custom_args'') = Some (VDict (map (\<lambda>(k, v). (VStr k, v)) custom))"
  by (simp add: field_metadata_of_def Let_def)

lemma metadata_of_get_encoding_fn:
  "dict_get (field_metadata_of m0 alias cmd positional to_dict encoding_fn decoding_fn custom)
     (VStr ''encoding_fn'') =
   (if encoding_fn \<noteq> VNone then Some encoding_fn else dict_get m0 (VStr ''encoding_fn''))"
  by (simp add: field_metadata_of_def Let_def)

lemma metadata_of_get_decoding_fn:
  "dict_get (field_metadata_of m0 alias cmd positional to_dict encoding_fn decoding_fn custom)
     (VStr ''decoding_fn'') =
   (if decoding_fn \<noteq> VNone then Some decoding_fn else dict_get m0 (VStr ''decoding_fn''))"
  by (simp add: field_metadata_of_def Let_def)

lemma field_dict_metadata:
  assumes "metadata = VNone \<and> m0 = [] \<or> metadata = VDict m0"
  shows "field dflt alias cmd positional to_dict encoding_fn decoding_fn default_factory
           init repr hash compare metadata custom =
         (case (if custom \<noteq> [] then action_default custom dflt else Inr dflt) of
            Inl e \<Rightarrow> Inl e
          | Inr d1 \<Rightarrow> Inr \<lparr>field_default = d1,
              field_default_factory = (if d1 \<noteq> VMissing then VMissing else default_factory),
              field_init = init, field_repr = repr, field_hash = hash, field_compare = compare,
              field_metadata = field_metadata_of m0 alias cmd positional to_dict encoding_fn
                decoding_fn custom\<rparr>)"
  using assms by (auto simp: field_def dataclasses_field_def Let_def split: sum.splits)

lemma field_other_metadata:
  assumes "metadata \<noteq> VNone" "\<And>m. metadata \<noteq> VDict m"
  shows "\<exists>e. field dflt alias cmd positional to_dict encoding_fn decoding_fn default_factory
           init repr hash compare metadata custom = Inl e"
  using assms by (cases metadata) (auto simp: field_def)

lemma action_default_cong:
  "kw_get kws ''action'' = kw_get kws' ''action'' \<Longrightarrow>
   action_default kws dflt = action_default kws' dflt"
  by (simp add: action_default_def kw_param_def)

lemma action_default_custom:
  "action_default ((''choices'', c) # filter (\<lambda>(k, v). k \<notin> set field_params) kwargs) dflt =
   action_default kwargs dflt"
proof -
  have "''action'' \<notin> set field_params"
    by (simp add: field_params_def)
  then show ?thesis
    by (intro action_default_cong) (simp add: kw_get_filter)
qed

lemma action_default_plain:
  "no_store_action kwargs \<Longrightarrow> action_default kwargs dflt = Inr dflt"
  by (auto simp: action_default_def no_store_action_def kw_param_def Let_def
      split: option.splits)

lemma action_default_missing: "\<exists>d1. action_default kwargs VMissing = Inr d1"
  by (simp add: action_default_def in_missing_or_def Let_def)

lemma call_field_eq:
  assumes "kw_get kwargs ''choices'' = None"
    and "kw_param kwargs ''metadata'' VNone = VNone \<and> m0 = []
         \<or> kw_param kwargs ''metadata'' VNone = VDict m0"
  shows "call_field dflt choices kwargs =
     (case action_default kwargs dflt of
        Inl e \<Rightarrow> Inl e
      | Inr d1 \<Rightarrow> Inr (field_of_kwargs d1 m0 (kw_param kwargs ''encoding_fn'' VNone)
                       (kw_param kwargs ''decoding_fn'' VNone) kwargs choices))"
  using assms(1) field_dict_metadata [OF assms(2)]
  by (simp add: call_field_def action_default_custom field_of_kwargs_def split: sum.splits)

lemma field_choices_of_kwargs [simp]:
  "field_choices (field_of_kwargs d1 m0 enc dec kwargs choices) = Some choices"
  by (simp add: field_choices_def field_of_kwargs_def metadata_of_get_custom_args)

lemma field_default_of_kwargs [simp]:
  "field_default (field_of_kwargs d1 m0 enc dec kwargs choices) = d1"
  by (simp add: field_of_kwargs_def)

section \<open>What \<^verbatim>\<open>choice\<close> and \<^verbatim>\<open>subgroups\<close> return\<close>

lemma choice_enum_other:
  "(\<And>cls names. c \<noteq> VEnumClass cls names) \<Longrightarrow> choice_enum c dflt = ([], Inr (c, dflt))"
  by (cases c) (auto simp: choice_enum_def)

lemma choice_dict_other:
  "(\<And>cd. c \<noteq> VDict cd) \<Longrightarrow> choice_dict c kwargs = Inr (c, kwargs)"
  by (cases c) (auto simp: choice_dict_def)

lemma choice_dict_VDict:
  assumes "kw_metadata kwargs = Some m0"
  shows "choice_dict (VDict cd) kwargs =
     Inr (VList (map fst cd),
          kw_setdefault (kw_setdefault
            (kw_set (kw_setdefault kwargs ''metadata'' (VDict [])) ''metadata''
               (VDict (dict_setitem m0 (VStr ''choice_dict'') (VDict cd))))
            ''encoding_fn'' (VEncodingFn cd)) ''decoding_fn'' (VDecodingFn cd))"
  using kw_metadata_cases [OF assms] by (auto simp: choice_dict_def Let_def)

lemma choice_dict_bad_metadata:
  assumes "kw_metadata kwargs = None"
  shows "choice_dict (VDict cd) kwargs =
     Inl (TypeError ''object does not support item assignment'')"
proof -
  obtain v where v: "kw_get kwargs ''metadata'' = Some v" "\<forall>m. v \<noteq> VDict m"
    using kw_metadata_None [OF assms] by blast
  then show ?thesis
    by (cases v) (auto simp: choice_dict_def Let_def)
qed

lemma filter_params_choice_dict:
  "filter (\<lambda>(k, v). k \<notin> set field_params)
     (kw_setdefault (kw_setdefault (kw_set (kw_setdefault kwargs ''metadata'' a) ''metadata'' b)
        ''encoding_fn'' c) ''decoding_fn'' d) =
   filter (\<lambda>(k, v). k \<notin> set field_params) kwargs"
proof -
  have "''metadata'' \<in> set field_params" "''encoding_fn'' \<in> set field_params"
    "''decoding_fn'' \<in> set field_params"
    by (simp_all add: field_params_def)
  then show ?thesis
    by (simp add: filter_kw_set filter_kw_setdefault)
qed

lemma choice_VDict:
  assumes "kw_get kwargs ''choices'' = None" and "kw_metadata kwargs = Some m0"
  shows "choice [VDict cd] dflt kwargs =
     ([], case action_default kwargs dflt of
            Inl e \<Rightarrow> Inl e
          | Inr d1 \<Rightarrow> Inr (field_of_kwargs d1 (dict_setitem m0 (VStr ''choice_dict'') (VDict cd))
              (case kw_get kwargs ''encoding_fn'' of None \<Rightarrow> VEncodingFn cd | Some fn \<Rightarrow> fn)
              (case kw_get kwargs ''decoding_fn'' of None \<Rightarrow> VDecodingFn cd | Some fn \<Rightarrow> fn)
              kwargs (VList (map fst cd))))"
proof -
  let ?kw = "kw_setdefault (kw_setdefault
            (kw_set (kw_setdefault kwargs ''metadata'' (VDict [])) ''metadata''
               (VDict (dict_setitem m0 (VStr ''choice_dict'') (VDict cd))))
            ''encoding_fn'' (VEncodingFn cd)) ''decoding_fn'' (VDecodingFn cd)"
  have ch: "kw_get ?kw ''choices'' = None"
    using assms(1) by simp
  have md: "kw_param ?kw ''metadata'' VNone =
      VDict (dict_setitem m0 (VStr ''choice_dict'') (VDict cd))"
    by (simp add: kw_param_def)
  have act: "action_default ?kw dflt = action_default kwargs dflt"
    by (rule action_default_cong) (simp split: option.splits)
  have par: "\<And>n d. n \<notin> {''metadata'', ''encoding_fn'', ''decoding_fn''} \<Longrightarrow>
      kw_param ?kw n d = kw_param kwargs n d"
    by (auto simp: kw_param_def split: option.splits)
  have enc: "kw_param ?kw ''encoding_fn'' VNone =
      (case kw_get kwargs ''encoding_fn'' of None \<Rightarrow> VEncodingFn cd | Some fn \<Rightarrow> fn)"
    by (simp add: kw_param_def split: option.splits)
  have dec: "kw_param ?kw ''decoding_fn'' VNone =
      (case kw_get kwargs ''decoding_fn'' of None \<Rightarrow> VDecodingFn cd | Some fn \<Rightarrow> fn)"
    by (simp add: kw_param_def split: option.splits)
  have fok: "\<And>d1 m e d c. field_of_kwargs d1 m e d ?kw c = field_of_kwargs d1 m e d kwargs c"
    by (simp add: field_of_kwargs_def par filter_params_choice_dict)
  have "call_field dflt (VList (map fst cd)) ?kw =
     (case action_default kwargs dflt of
        Inl e \<Rightarrow> Inl e
      | Inr d1 \<Rightarrow> Inr (field_of_kwargs d1 (dict_setitem m0 (VStr ''choice_dict'') (VDict cd))
              (case kw_get kwargs ''encoding_fn'' of None \<Rightarrow> VEncodingFn cd | Some fn \<Rightarrow> fn)
              (case kw_get kwargs ''decoding_fn'' of None \<Rightarrow> VDecodingFn cd | Some fn \<Rightarrow> fn)
              kwargs (VList (map fst cd))))"
    using call_field_eq [OF ch, of "dict_setitem m0 (VStr ''choice_dict'') (VDict cd)" dflt
        "VList (map fst cd)"]
    by (cases "action_default kwargs dflt") (simp_all add: md act enc dec fok)
  then show ?thesis
    by (simp add: choice_enum_other choice_dict_VDict [OF assms(2)])
qed

lemma choice_VDict_bad_metadata:
  assumes "kw_metadata kwargs = None"
  shows "choice [VDict cd] dflt kwargs =
     ([], Inl (TypeError ''object does not support item assignment''))"
  by (simp add: choice_enum_other choice_dict_bad_metadata [OF assms])

lemma choice_other:
  assumes "\<And>cls names. c \<noteq> VEnumClass cls names" "\<And>cd. c \<noteq> VDict cd"
  shows "choice [c] dflt kwargs = ([], call_field dflt c kwargs)"
  using assms by (simp add: choice_enum_other choice_dict_other)

lemma subgroups_empty_defaults:
  assumes "dflt \<noteq> VMissing \<or> default_factory \<noteq> VMissing"
  shows "\<exists>e. subgroups [] args dflt default_factory kwargs = ([], Inl e)"
proof (cases "kw_metadata kwargs")
  case None
  then obtain v where v: "kw_get kwargs ''metadata'' = Some v" "\<forall>m. v \<noteq> VDict m"
    using kw_metadata_None by blast
  then show ?thesis
    by (cases v) (auto simp: subgroups_def Let_def)
next
  case (Some m0)
  from kw_metadata_cases [OF this] assms show ?thesis
    by (auto simp: subgroups_def Let_def dict_contains_def values_contains_def)
qed

lemma subgroups_empty_no_default:
  assumes "kw_get kwargs ''choices'' = None" and "kw_metadata kwargs = Some m0"
  shows "\<exists>f. subgroups [] [] VMissing VMissing kwargs = ([], Inr f)
     \<and> field_choices f = Some (VDictKeys [])"
proof -
  let ?m = "dict_setitem (dict_setitem (dict_setitem m0 (VStr ''subgroups'') (VDict []))
      (VStr ''subgroup_default'') VMissing) (VStr ''subgroup_default'') VMissing"
  let ?kw = "(''default_factory'', VMissing) #
      kw_set (kw_set (kw_setdefault kwargs ''metadata'' (VDict [])) ''type''
        (VClass ''str'' False)) ''metadata'' (VDict ?m)"
  have sg: "subgroups [] [] VMissing VMissing kwargs = choice [VDictKeys []] VMissing ?kw"
    using kw_metadata_cases [OF assms(2)]
    by (auto simp: subgroups_def subgroup_default_def Let_def)
  have ch: "kw_get ?kw ''choices'' = None"
    using assms(1) by simp
  have md: "kw_param ?kw ''metadata'' VNone = VDict ?m"
    by (simp add: kw_param_def)
  obtain d1 where "action_default ?kw VMissing = Inr d1"
    using action_default_missing by blast
  then have "call_field VMissing (VDictKeys []) ?kw =
      Inr (field_of_kwargs d1 ?m (kw_param ?kw ''encoding_fn'' VNone)
        (kw_param ?kw ''decoding_fn'' VNone) ?kw (VDictKeys []))"
    using call_field_eq [OF ch, of ?m VMissing "VDictKeys []"] md by simp
  moreover have "choice [VDictKeys []] VMissing ?kw =
      ([], call_field VMissing (VDictKeys []) ?kw)"
    by (rule choice_other) simp_all
  ultimately have "subgroups [] [] VMissing VMissing kwargs =
      ([], Inr (field_of_kwargs d1 ?m (kw_param ?kw ''encoding_fn'' VNone)
        (kw_param ?kw ''decoding_fn'' VNone) ?kw (VDictKeys [])))"
    by (simp only: sg)
  then show ?thesis
    by (intro exI conjI) (assumption, simp)
qed

section \<open>Evaluation on concrete arguments\<close>

lemmas eval_defs = choice_enum_def choice_dict_def call_field_def field_def
  field_metadata_of_def action_default_def in_missing_or_def dataclasses_field_def
  kw_param_def kw_setdefault_def field_params_def Let_def
  subgroups_def subgroup_default_def matching_keys_def dict_contains_def values_contains_def
  field_choices_def metadata_get_def dict_of_items_def choice_encoding_fn_def choice_decoding_fn_def

section \<open>Plain sequences of choices\<close>

text \<open>
  Claim C1 says that a plain sequence of choices with a default that is not one of them
  fails with an invalid-default error, and the docstring of \<^verbatim>\<open>choice\<close> promises a
  \<^verbatim>\<open>ValueError\<close> there. The code has no such check: \<^verbatim>\<open>choice("a", "b", default="c")\<close>
  and \<^verbatim>\<open>choice(["a", "b"], default="c")\<close> both return a field whose default is
  \<^verbatim>\<open>"c"\<close> and whose choices are the two given values.
\<close>

theorem C1_default_outside_choices_accepted:
  "choice [VStr ''a'', VStr ''b''] (VStr ''c'') [] =
     ([], Inr \<lparr>field_default = VStr ''c'', field_default_factory = VMissing,
        field_init = VBool True, field_repr = VBool True, field_hash = VNone,
        field_compare = VBool True,
        field_metadata =
          [(VStr ''to_dict'', VBool True), (VStr ''cmd'', VBool True),
           (VStr ''positional'', VBool False),
           (VStr ''custom_args'',
            VDict [(VStr ''choices'', VTuple [VStr ''a'', VStr ''b''])])]\<rparr>)
   \<and> choice [VList [VStr ''a'', VStr ''b'']] (VStr ''c'') [] =
     ([], Inr \<lparr>field_default = VStr ''c'', field_default_factory = VMissing,
        field_init = VBool True, field_repr = VBool True, field_hash = VNone,
        field_compare = VBool True,
        field_metadata =
          [(VStr ''to_dict'', VBool True), (VStr ''cmd'', VBool True),
           (VStr ''positional'', VBool False),
           (VStr ''custom_args'',
            VDict [(VStr ''choices'', VList [VStr ''a'', VStr ''b''])])]\<rparr>)"
  by (simp add: eval_defs)

section \<open>Empty choice sets\<close>

text \<open>
  Claim C2 says that every choice set without entries is refused. An empty dict passed
  to \<^verbatim>\<open>choice\<close>, and an empty dict passed to \<^verbatim>\<open>subgroups\<close> with no default, are
  accepted: both calls return a field, and its choices are empty.
\<close>

theorem C2_counterexample:
  "\<not> isl (snd (choice [VDict []] VMissing []))
   \<and> field_choices (projr (snd (choice [VDict []] VMissing []))) = Some (VList [])
   \<and> \<not> isl (snd (subgroups [] [] VMissing VMissing []))
   \<and> field_choices (projr (snd (subgroups [] [] VMissing VMissing []))) = Some (VDictKeys [])"
  by (simp add: eval_defs)

text \<open>
  Claim C2 as amended: \<^verbatim>\<open>choice\<close> without a positional argument fails with the
  \<^verbatim>\<open>AssertionError\<close> of line 194, and \<^verbatim>\<open>subgroups\<close> with an empty dict and a default
  or a default factory fails too; an empty dict passed to \<^verbatim>\<open>choice\<close>, with any default,
  and an empty dict passed to \<^verbatim>\<open>subgroups\<close> with neither default nor default factory,
  return a field whose choices are empty, the keyword arguments being such that
  \<^verbatim>\<open>field\<close> accepts them.
\<close>

theorem C2_empty_choice_sets:
  "choice [] dflt kwargs =
       ([], Inl (AssertionError ''Choice requires at least one positional argument!''))
     \<and> (dflt \<noteq> VMissing \<or> default_factory \<noteq> VMissing \<longrightarrow>
          (\<exists>e. subgroups [] args dflt default_factory kwargs = ([], Inl e)))
     \<and> (kw_get kwargs ''choices'' = None \<and> kw_metadata kwargs \<noteq> None
          \<and> no_store_action kwargs \<longrightarrow>
          (\<exists>f. choice [VDict []] dflt kwargs = ([], Inr f) \<and> field_choices f = Some (VList []))
          \<and> (\<exists>f. subgroups [] [] VMissing VMissing kwargs = ([], Inr f)
                \<and> field_choices f = Some (VDictKeys [])))"
proof (intro conjI impI)
  show "choice [] dflt kwargs =
       ([], Inl (AssertionError ''Choice requires at least one positional argument!''))"
    by simp
next
  assume "dflt \<noteq> VMissing \<or> default_factory \<noteq> VMissing"
  then show "\<exists>e. subgroups [] args dflt default_factory kwargs = ([], Inl e)"
    by (rule subgroups_empty_defaults)
next
  assume a: "kw_get kwargs ''choices'' = None \<and> kw_metadata kwargs \<noteq> None
          \<and> no_store_action kwargs"
  then obtain m0 where m0: "kw_metadata kwargs = Some m0"
    by auto
  from a have ch: "kw_get kwargs ''choices'' = None" and act: "no_store_action kwargs"
    by simp_all
  show "\<exists>f. choice [VDict []] dflt kwargs = ([], Inr f) \<and> field_choices f = Some (VList [])"
    by (simp add: choice_VDict [OF ch m0] action_default_plain [OF act] del: choice.simps)
  show "\<exists>f. subgroups [] [] VMissing VMissing kwargs = ([], Inr f)
                \<and> field_choices f = Some (VDictKeys [])"
    by (rule subgroups_empty_no_default [OF ch m0])
qed

theorem C2_empty_choice_sets_witness:
  "choice [] (VStr ''a'') [] =
       ([], Inl (AssertionError ''Choice requires at least one positional argument!''))
     \<and> (\<exists>e. subgroups [] [] (VStr ''a'') VMissing [] = ([], Inl e))
     \<and> (\<exists>f. choice [VDict []] (VStr ''a'') [] = ([], Inr f) \<and> field_choices f = Some (VList []))
     \<and> (\<exists>f. subgroups [] [] VMissing VMissing [] = ([], Inr f)
            \<and> field_choices f = Some (VDictKeys []))"
  using C2_empty_choice_sets [of "VStr ''a''" "[]" VMissing "[]"]
  by (simp add: kw_metadata_def no_store_action_def del: choice.simps)

section \<open>Choices given as a dict\<close>

text \<open>
  For a hashable argument the two closures do what their docstrings say: the encoding
  function returns a key unchanged, maps a value to the first key that holds it, and
  passes anything else through; the decoding function looks the key up and passes
  anything else through.
\<close>

lemma filter_first:
  "find P d = Some (k, v) \<Longrightarrow> \<exists>ks. map fst (filter P d) = k # ks"
  by (induction d) (auto split: if_splits)

lemma values_contains_find:
  "values_contains d x = (find (\<lambda>(k, v). py_eq v x) d \<noteq> None)"
  by (induction d) (auto simp: values_contains_def)

lemma encoding_fn_hashable:
  assumes "hashable value"
  shows "choice_encoding_fn m value =
     Inr (if dict_contains m value then value
          else case find (\<lambda>(k, v). py_eq v value) m of
                 Some (k, v) \<Rightarrow> k
               | None \<Rightarrow> value)"
proof (cases "find (\<lambda>(k, v). py_eq v value) m")
  case None
  then show ?thesis
    using assms by (simp add: choice_encoding_fn_def values_contains_find)
next
  case (Some kv)
  obtain k v where kv: "kv = (k, v)"
    by (cases kv)
  have "find (\<lambda>(k, v). py_eq v value) m = Some (k, v)"
    using Some kv by simp
  from filter_first [OF this]
  obtain ks where "map fst (filter (\<lambda>(k, v). py_eq v value) m) = k # ks" ..
  then show ?thesis
    using assms Some by (simp add: choice_encoding_fn_def values_contains_find kv)
qed

lemma decoding_fn_hashable:
  assumes "hashable value"
  shows "choice_decoding_fn m value =
     Inr (case dict_get m value of Some v \<Rightarrow> v | None \<Rightarrow> value)"
  using assms by (simp add: choice_decoding_fn_def split: option.splits)

lemma encoding_decoding_examples:
  "choice_decoding_fn [(VStr ''small'', VInt 1), (VStr ''big'', VInt 100)] (VStr ''small'')
     = Inr (VInt 1)"
  "choice_decoding_fn [(VStr ''small'', VInt 1), (VStr ''big'', VInt 100)] (VStr ''unknown'')
     = Inr (VStr ''unknown'')"
  "choice_encoding_fn [(VStr ''small'', VInt 1), (VStr ''big'', VInt 100)] (VInt 1)
     = Inr (VStr ''small'')"
  "choice_encoding_fn [(VStr ''small'', VInt 1), (VStr ''big'', VInt 100)] (VInt 42)
     = Inr (VInt 42)"
  by (simp_all add: choice_decoding_fn_def choice_encoding_fn_def dict_contains_def
      values_contains_def)

text \<open>
  Claim C3 says that, for every dict of choices, the encoding function maps an argument
  that equals one of the values to the first key holding it, and that the decoding
  function passes through an argument that is no key. Both closures start with a lookup
  by hash (\<^verbatim>\<open>value in choice_dict.keys()\<close>, \<^verbatim>\<open>choice_dict.get(value, value)\<close>), so an
  unhashable argument raises \<^verbatim>\<open>TypeError\<close> before the values are looked at. The theorem
  evaluates \<^verbatim>\<open>choice({"a": [1, 2]})\<close>: the closures over that dict are installed, the
  list \<^verbatim>\<open>[1, 2]\<close> is one of its values, and both closures raise on it.
\<close>

theorem C3_encoding_fn_unhashable_value:
  "metadata_get (projr (snd (choice [VDict [(VStr ''a'', VList [VInt 1, VInt 2])]] VMissing [])))
       ''encoding_fn'' = Some (VEncodingFn [(VStr ''a'', VList [VInt 1, VInt 2])])
   \<and> metadata_get (projr (snd (choice [VDict [(VStr ''a'', VList [VInt 1, VInt 2])]] VMissing [])))
       ''decoding_fn'' = Some (VDecodingFn [(VStr ''a'', VList [VInt 1, VInt 2])])
   \<and> values_contains [(VStr ''a'', VList [VInt 1, VInt 2])] (VList [VInt 1, VInt 2])
   \<and> choice_encoding_fn [(VStr ''a'', VList [VInt 1, VInt 2])] (VList [VInt 1, VInt 2])
       = Inl (TypeError ''unhashable type'')
   \<and> choice_decoding_fn [(VStr ''a'', VList [VInt 1, VInt 2])] (VList [VInt 1, VInt 2])
       = Inl (TypeError ''unhashable type'')"
  by (simp add: eval_defs)

lemma call_field_dup_choices:
  "kw_get kwargs ''choices'' = Some v \<Longrightarrow>
   call_field dflt choices kwargs = Inl (TypeError ''got multiple values for keyword argument'')"
  by (simp add: call_field_def)

lemma choice_VDict_dup_choices:
  assumes "kw_metadata kwargs = Some m0" and "kw_get kwargs ''choices'' = Some v"
  shows "choice [VDict cd] dflt kwargs =
     ([], Inl (TypeError ''got multiple values for keyword argument''))"
proof -
  let ?kw = "kw_setdefault (kw_setdefault
            (kw_set (kw_setdefault kwargs ''metadata'' (VDict [])) ''metadata''
               (VDict (dict_setitem m0 (VStr ''choice_dict'') (VDict cd))))
            ''encoding_fn'' (VEncodingFn cd)) ''decoding_fn'' (VDecodingFn cd)"
  have "kw_get ?kw ''choices'' = Some v"
    using assms(2) by simp
  then show ?thesis
    by (simp add: choice_enum_other choice_dict_VDict [OF assms(1)] call_field_dup_choices)
qed

lemma choice_VDict_Inr:
  assumes "choice [VDict cd] dflt kwargs = (ws, Inr f)"
  obtains m0 d1 where "kw_metadata kwargs = Some m0" "kw_get kwargs ''choices'' = None"
    "action_default kwargs dflt = Inr d1" "ws = []"
    "f = field_of_kwargs d1 (dict_setitem m0 (VStr ''choice_dict'') (VDict cd))
           (case kw_get kwargs ''encoding_fn'' of None \<Rightarrow> VEncodingFn cd | Some fn \<Rightarrow> fn)
           (case kw_get kwargs ''decoding_fn'' of None \<Rightarrow> VDecodingFn cd | Some fn \<Rightarrow> fn)
           kwargs (VList (map fst cd))"
proof (cases "kw_metadata kwargs")
  case None
  then show ?thesis
    using assms choice_VDict_bad_metadata [of kwargs cd dflt] by simp
next
  case (Some m0)
  show ?thesis
  proof (cases "kw_get kwargs ''choices''")
    case (Some v)
    then show ?thesis
      using assms choice_VDict_dup_choices [OF \<open>kw_metadata kwargs = Some m0\<close> Some, of cd dflt]
      by simp
  next
    case None
    show ?thesis
      using assms that [OF \<open>kw_metadata kwargs = Some m0\<close> None]
        choice_VDict [OF None \<open>kw_metadata kwargs = Some m0\<close>, of cd dflt]
      by (cases "action_default kwargs dflt") auto
  qed
qed

lemma metadata_get_of_kwargs_encoding_fn:
  "metadata_get (field_of_kwargs d1 m0 enc dec kwargs choices) ''encoding_fn'' =
     (if enc \<noteq> VNone then Some enc else dict_get m0 (VStr ''encoding_fn''))"
  by (simp add: metadata_get_def field_of_kwargs_def metadata_of_get_encoding_fn)

lemma metadata_get_of_kwargs_decoding_fn:
  "metadata_get (field_of_kwargs d1 m0 enc dec kwargs choices) ''decoding_fn'' =
     (if dec \<noteq> VNone then Some dec else dict_get m0 (VStr ''decoding_fn''))"
  by (simp add: metadata_get_def field_of_kwargs_def metadata_of_get_decoding_fn)

text \<open>
  Claim C10: when \<^verbatim>\<open>choice\<close> is given a dict of choices and returns a field, an
  \<^verbatim>\<open>encoding_fn\<close> that the caller passed (and that is not \<^verbatim>\<open>None\<close>) is the one stored in
  the metadata of the field, and the closure over the dict is stored when the caller
  passed no \<^verbatim>\<open>encoding_fn\<close>; likewise for \<^verbatim>\<open>decoding_fn\<close>, each keyword on its own.
\<close>

theorem C10_caller_functions_kept:
  assumes "choice [VDict cd] dflt kwargs = (ws, Inr f)"
  shows "(\<forall>fn. kw_get kwargs ''encoding_fn'' = Some fn \<and> fn \<noteq> VNone \<longrightarrow>
            metadata_get f ''encoding_fn'' = Some fn)
     \<and> (kw_get kwargs ''encoding_fn'' = None \<longrightarrow>
            metadata_get f ''encoding_fn'' = Some (VEncodingFn cd))
     \<and> (\<forall>fn. kw_get kwargs ''decoding_fn'' = Some fn \<and> fn \<noteq> VNone \<longrightarrow>
            metadata_get f ''decoding_fn'' = Some fn)
     \<and> (kw_get kwargs ''decoding_fn'' = None \<longrightarrow>
            metadata_get f ''decoding_fn'' = Some (VDecodingFn cd))"
  using assms
  by (elim choice_VDict_Inr)
     (simp add: metadata_get_of_kwargs_encoding_fn metadata_get_of_kwargs_decoding_fn)

theorem C10_caller_functions_kept_witness:
  "metadata_get (projr (snd (choice [VDict [(VStr ''small'', VInt 1), (VStr ''big'', VInt 100)]]
       VMissing [(''encoding_fn'', VFunction ''my_encode'')]))) ''encoding_fn''
     = Some (VFunction ''my_encode'')
   \<and> metadata_get (projr (snd (choice [VDict [(VStr ''small'', VInt 1), (VStr ''big'', VInt 100)]]
       VMissing [(''encoding_fn'', VFunction ''my_encode'')]))) ''decoding_fn''
     = Some (VDecodingFn [(VStr ''small'', VInt 1), (VStr ''big'', VInt 100)])"
proof -
  let ?r = "choice [VDict [(VStr ''small'', VInt 1), (VStr ''big'', VInt 100)]]
       VMissing [(''encoding_fn'', VFunction ''my_encode'')]"
  have "?r = ([], Inr (projr (snd ?r)))"
    by (simp add: eval_defs)
  from C10_caller_functions_kept [OF this] show ?thesis
    by simp
qed

section \<open>Choices given as an enum class\<close>

text \<open>
  The member names of an enum class are pairwise distinct (Python refuses a class body
  that reuses a name), so the ordered dict of line 201 keeps one entry per name, in
  declaration order.
\<close>

lemma dict_setitem_fresh:
  "VStr n \<notin> fst ` set d \<Longrightarrow> dict_setitem d (VStr n) w = d @ [(VStr n, w)]"
  by (induction d) auto

lemma foldl_setitem_names:
  "distinct names \<Longrightarrow> \<forall>n \<in> set names. VStr n \<notin> fst ` set acc \<Longrightarrow>
   foldl (\<lambda>d (k, v). dict_setitem d k v) acc (map (\<lambda>n. (VStr n, VEnumMember cls n)) names) =
   acc @ map (\<lambda>n. (VStr n, VEnumMember cls n)) names"
proof (induction names arbitrary: acc)
  case Nil
  then show ?case by simp
next
  case (Cons n names)
  have fresh: "VStr n \<notin> fst ` set acc"
    using Cons.prems(2) by simp
  have "\<forall>n' \<in> set names. VStr n' \<notin> fst ` set (acc @ [(VStr n, VEnumMember cls n)])"
    using Cons.prems by auto
  with Cons.IH [of "acc @ [(VStr n, VEnumMember cls n)]"] Cons.prems(1) show ?case
    by (simp add: dict_setitem_fresh [OF fresh])
qed

lemma dict_of_items_enum:
  "distinct names \<Longrightarrow>
   dict_of_items (map (\<lambda>n. (VStr n, VEnumMember cls n)) names) =
   map (\<lambda>n. (VStr n, VEnumMember cls n)) names"
  using foldl_setitem_names [of names "[]" cls] by (simp add: dict_of_items_def)

lemma dict_get_enum_name:
  "n \<in> set names \<Longrightarrow>
   dict_get (map (\<lambda>n. (VStr n, VEnumMember cls n)) names) (VStr n) = Some (VEnumMember cls n)"
  by (induction names) auto

lemma dict_get_enum_other:
  "x \<notin> VStr ` set names \<Longrightarrow>
   dict_get (map (\<lambda>n. (VStr n, VEnumMember cls n)) names) x = None"
  by (induction names) auto

lemma choice_through_enum:
  assumes "choice_enum c dflt = (ws, Inr (VDict cd, d1))"
  shows "choice [c] dflt kwargs = (ws, snd (choice [VDict cd] d1 kwargs))"
  using assms by (simp add: choice_enum_other split: sum.splits prod.splits)

lemma choice_enum_fails:
  assumes "choice_enum c dflt = (ws, Inl e)"
  shows "choice [c] dflt kwargs = (ws, Inl e)"
  using assms by simp

lemma map_fst_enum:
  "map fst (map (\<lambda>n. (VStr n, VEnumMember cls n)) names) = map VStr names"
  by simp

text \<open>
  Claim C6: for an enum class passed as the single choice set, the choices of the field
  are the member names in declaration order; a default that is a member of the class
  (or no default) is kept as it is, and no warning is emitted. The keyword arguments are
  such that \<^verbatim>\<open>field\<close> accepts them.
\<close>

theorem C6_enum_choices:
  assumes "distinct names" and "kw_get kwargs ''choices'' = None"
    and "kw_metadata kwargs = Some m0" and "no_store_action kwargs"
    and "dflt = VMissing \<or> isinstance_enum dflt cls"
  shows "\<exists>f. choice [VEnumClass cls names] dflt kwargs = ([], Inr f)
     \<and> field_choices f = Some (VList (map VStr names))
     \<and> field_default f = dflt"
proof -
  let ?cd = "map (\<lambda>n. (VStr n, VEnumMember cls n)) names"
  have "choice_enum (VEnumClass cls names) dflt = ([], Inr (VDict ?cd, dflt))"
    using assms(5) by (auto simp: choice_enum_def dict_of_items_enum [OF assms(1)])
  from choice_through_enum [OF this]
  have "choice [VEnumClass cls names] dflt kwargs = ([], snd (choice [VDict ?cd] dflt kwargs))" .
  then show ?thesis
    by (simp add: choice_VDict [OF assms(2,3)] action_default_plain [OF assms(4)] comp_def
        del: choice.simps)
qed

theorem C6_enum_choices_witness:
  "\<exists>f. choice [VEnumClass ''Color'' [''A'', ''B'', ''C'']] (VEnumMember ''Color'' ''B'') []
        = ([], Inr f)
     \<and> field_choices f = Some (VList [VStr ''A'', VStr ''B'', VStr ''C''])
     \<and> field_default f = VEnumMember ''Color'' ''B''"
  using C6_enum_choices [of "[''A'', ''B'', ''C'']" "[]" "[]" "VEnumMember ''Color'' ''B''" "''Color''"]
  by (simp add: kw_metadata_def no_store_action_def)

text \<open>
  Claim C7: for an enum class and a default that is given and is not a member of the
  class, a default that is one of the member names is replaced by that member, with
  exactly one warning, and the call returns a field (the keyword arguments being such
  that \<^verbatim>\<open>field\<close> accepts them); any other default makes the call fail, whatever the
  keyword arguments, with the \<^verbatim>\<open>ValueError\<close> of line 213 when the default is hashable
  and with the \<^verbatim>\<open>TypeError\<close> of the lookup of line 203 when it is not.
\<close>

theorem C7_enum_default_not_member:
  assumes "distinct names" and "dflt \<noteq> VMissing" and "\<not> isinstance_enum dflt cls"
  shows "(\<forall>n. dflt = VStr n \<and> n \<in> set names \<and> kw_get kwargs ''choices'' = None
            \<and> kw_metadata kwargs \<noteq> None \<and> no_store_action kwargs \<longrightarrow>
          (\<exists>w f. choice [VEnumClass cls names] dflt kwargs = ([w], Inr f)
             \<and> field_default f = VEnumMember cls n
             \<and> field_choices f = Some (VList (map VStr names))))
     \<and> (dflt \<notin> VStr ` set names \<longrightarrow>
          choice [VEnumClass cls names] dflt kwargs =
            ([], Inl (if hashable dflt
                      then ValueError ''default arg should be of the enum type''
                      else TypeError ''unhashable type'')))"
proof (intro conjI allI impI)
  fix n
  assume a: "dflt = VStr n \<and> n \<in> set names \<and> kw_get kwargs ''choices'' = None
            \<and> kw_metadata kwargs \<noteq> None \<and> no_store_action kwargs"
  then obtain m0 where m0: "kw_metadata kwargs = Some m0"
    by auto
  let ?cd = "map (\<lambda>n. (VStr n, VEnumMember cls n)) names"
  obtain w where "choice_enum (VEnumClass cls names) dflt =
      ([w], Inr (VDict ?cd, VEnumMember cls n))"
    using a by (simp add: choice_enum_def dict_of_items_enum [OF assms(1)] dict_get_enum_name)
  from choice_through_enum [OF this]
  have "choice [VEnumClass cls names] dflt kwargs =
      ([w], snd (choice [VDict ?cd] (VEnumMember cls n) kwargs))" .
  moreover have "kw_get kwargs ''choices'' = None" "no_store_action kwargs"
    using a by simp_all
  ultimately show "\<exists>w f. choice [VEnumClass cls names] dflt kwargs = ([w], Inr f)
             \<and> field_default f = VEnumMember cls n
             \<and> field_choices f = Some (VList (map VStr names))"
    by (simp add: choice_VDict [OF _ m0] action_default_plain comp_def del: choice.simps)
next
  assume "dflt \<notin> VStr ` set names"
  then have "choice_enum (VEnumClass cls names) dflt =
      ([], Inl (if hashable dflt
                      then ValueError ''default arg should be of the enum type''
                      else TypeError ''unhashable type''))"
    using assms(2,3)
    by (simp add: choice_enum_def dict_of_items_enum [OF assms(1)] dict_get_enum_other)
  then show "choice [VEnumClass cls names] dflt kwargs =
            ([], Inl (if hashable dflt
                      then ValueError ''default arg should be of the enum type''
                      else TypeError ''unhashable type''))"
    by (rule choice_enum_fails)
qed

theorem C7_enum_default_not_member_witness:
  "(\<exists>w f. choice [VEnumClass ''Color'' [''A'', ''B'', ''C'']] (VStr ''B'') [] = ([w], Inr f)
       \<and> field_default f = VEnumMember ''Color'' ''B''
       \<and> field_choices f = Some (VList [VStr ''A'', VStr ''B'', VStr ''C'']))
   \<and> choice [VEnumClass ''Color'' [''A'', ''B'', ''C'']] (VStr ''D'') [] =
       ([], Inl (ValueError ''default arg should be of the enum type''))
   \<and> choice [VEnumClass ''Color'' [''A'', ''B'', ''C'']] (VList []) [] =
       ([], Inl (TypeError ''unhashable type''))"
  using C7_enum_default_not_member [of "[''A'', ''B'', ''C'']" "VStr ''B''" "''Color''" "[]"]
    C7_enum_default_not_member [of "[''A'', ''B'', ''C'']" "VStr ''D''" "''Color''" "[]"]
    C7_enum_default_not_member [of "[''A'', ''B'', ''C'']" "VList []" "''Color''" "[]"]
  by (simp add: kw_metadata_def no_store_action_def image_iff del: choice.simps)

section \<open>Subgroups\<close>

lemma subgroups_bad_metadata:
  assumes "kw_metadata kwargs = None"
  shows "\<exists>e. subgroups sg args dflt df kwargs = ([], Inl e)"
proof -
  obtain v where v: "kw_get kwargs ''metadata'' = Some v" "\<forall>m. v \<noteq> VDict m"
    using kw_metadata_None [OF assms] by blast
  then show ?thesis
    by (cases v) (auto simp: subgroups_def Let_def)
qed

lemma subgroups_invalid:
  assumes "\<not> list_all is_dataclass_class (map snd sg)"
  shows "subgroups sg args dflt df kwargs =
     ([], Inl (ValueError ''All values in the subgroups dict need to be dataclasses!''))"
  using assms by (simp add: subgroups_def)

lemma subgroups_valid:
  assumes "list_all is_dataclass_class (map snd sg)" and "kw_metadata kwargs = Some m0"
  shows "subgroups sg args dflt df kwargs =
     (if df \<noteq> VMissing \<and> dflt \<noteq> VMissing
      then ([], Inl (ValueError ''Can't pass both default and default_factory!''))
      else if dflt \<noteq> VMissing \<and> \<not> hashable dflt
      then ([], Inl (TypeError ''unhashable type''))
      else if dflt \<noteq> VMissing \<and> \<not> dict_contains sg dflt
      then ([], Inl (ValueError ''default must be a key in the subgroups dict!''))
      else if df \<noteq> VMissing \<and> \<not> values_contains sg df
      then ([], Inl (ValueError ''default_factory must be a value in the subgroups dict!''))
      else
        (case subgroup_default sg dflt df
                (dict_setitem (dict_setitem m0 (VStr ''subgroups'') (VDict sg))
                   (VStr ''subgroup_default'') dflt) of
           Inl e \<Rightarrow> ([], Inl e)
         | Inr (d1, df1, m3) \<Rightarrow>
             choice (VDictKeys (map fst sg) # args) d1 (subgroups_kwargs kwargs df1 m3)))"
  using assms(1) kw_metadata_cases [OF assms(2)]
  by (elim disjE conjE)
     (simp_all add: subgroups_def subgroups_kwargs_def Let_def del: choice.simps
        cong: sum.case_cong)

lemma choice_keys:
  "choice (VDictKeys ks # args) d kw =
     ([], call_field d (if args = [] then VDictKeys ks else VTuple (VDictKeys ks # args)) kw)"
  by (cases args) (simp_all add: choice_enum_other choice_dict_other)

lemma kw_get_subgroups_kwargs:
  "kw_get (subgroups_kwargs kwargs df1 m3) n =
     (if n = ''default_factory'' then Some df1
      else if n = ''metadata'' then Some (VDict m3)
      else if n = ''type'' then Some (VClass ''str'' False)
      else kw_get kwargs n)"
  by (auto simp: subgroups_kwargs_def split: option.splits)

lemma choice_subgroups_kwargs:
  assumes "kw_get kwargs ''choices'' = None"
  shows "choice (VDictKeys (map fst sg) # args) d1 (subgroups_kwargs kwargs df1 m3) =
     ([], case action_default kwargs d1 of
            Inl e \<Rightarrow> Inl e
          | Inr d2 \<Rightarrow> Inr (field_of_kwargs d2 m3 (kw_param kwargs ''encoding_fn'' VNone)
              (kw_param kwargs ''decoding_fn'' VNone) (subgroups_kwargs kwargs df1 m3)
              (subgroups_choices sg args)))"
proof -
  let ?kw = "subgroups_kwargs kwargs df1 m3"
  have ch: "kw_get ?kw ''choices'' = None"
    using assms by (simp add: kw_get_subgroups_kwargs)
  have md: "kw_param ?kw ''metadata'' VNone = VDict m3"
    by (simp add: kw_param_def kw_get_subgroups_kwargs)
  have act: "action_default ?kw d1 = action_default kwargs d1"
    by (rule action_default_cong) (simp add: kw_get_subgroups_kwargs)
  have enc: "kw_param ?kw ''encoding_fn'' VNone = kw_param kwargs ''encoding_fn'' VNone"
    "kw_param ?kw ''decoding_fn'' VNone = kw_param kwargs ''decoding_fn'' VNone"
    by (simp_all add: kw_param_def kw_get_subgroups_kwargs)
  show ?thesis
    using call_field_eq [OF ch, of m3 d1 "subgroups_choices sg args"]
    by (cases "action_default kwargs d1")
       (simp_all add: choice_keys md act enc subgroups_choices_def del: choice.simps)
qed

lemma choice_subgroups_dup_choices:
  assumes "kw_get kwargs ''choices'' = Some v"
  shows "choice (VDictKeys (map fst sg) # args) d1 (subgroups_kwargs kwargs df1 m3) =
     ([], Inl (TypeError ''got multiple values for keyword argument''))"
proof -
  have "kw_get (subgroups_kwargs kwargs df1 m3) ''choices'' = Some v"
    using assms by (simp add: kw_get_subgroups_kwargs)
  then show ?thesis
    by (simp add: choice_keys call_field_dup_choices del: choice.simps)
qed

lemma field_default_factory_subgroups:
  "field_default_factory (field_of_kwargs d2 m3 enc dec (subgroups_kwargs kwargs df1 m3) c) =
     (if d2 \<noteq> VMissing then VMissing else df1)"
  by (simp add: field_of_kwargs_def kw_param_def kw_get_subgroups_kwargs)

lemma metadata_get_subgroup_default:
  "metadata_get (field_of_kwargs d2 m3 enc dec kw c) ''subgroup_default'' =
     dict_get m3 (VStr ''subgroup_default'')"
  by (simp add: metadata_get_def field_of_kwargs_def metadata_of_get_other)

lemma filter_keys_contained:
  "k \<in> set (map fst (filter P sg)) \<Longrightarrow> dict_contains sg k"
proof -
  assume "k \<in> set (map fst (filter P sg))"
  then obtain v where "(k, v) \<in> set sg"
    by auto
  moreover have "py_eq k k"
    by simp
  ultimately have "\<exists>x \<in> set sg. case x of (k', v) \<Rightarrow> py_eq k' k"
    by blast
  then show ?thesis
    by (simp add: dict_contains_def list_ex_iff)
qed

lemma matching_keys_subset:
  "k \<in> set (matching_keys sg df) \<Longrightarrow> dict_contains sg k"
proof (cases "map fst (filter (\<lambda>(k, v). v = df) sg) = []")
  case True
  assume "k \<in> set (matching_keys sg df)"
  with True have "k \<in> set (map fst (filter (\<lambda>(k, v). py_eq v df) sg))"
    by (simp add: matching_keys_def)
  then show ?thesis
    by (rule filter_keys_contained)
next
  case False
  assume "k \<in> set (matching_keys sg df)"
  with False have "k \<in> set (map fst (filter (\<lambda>(k, v). v = df) sg))"
    by (simp add: matching_keys_def)
  then show ?thesis
    by (rule filter_keys_contained)
qed

lemma identical_value_contained:
  assumes "filter (\<lambda>(k, v). v = df) sg \<noteq> []"
  shows "values_contains sg df"
proof -
  from assms obtain k where "(k, df) \<in> set sg"
    by (auto simp: filter_empty_conv)
  moreover have "py_eq df df"
    by simp
  ultimately have "\<exists>x \<in> set sg. case x of (k, v) \<Rightarrow> py_eq v df"
    by blast
  then show ?thesis
    by (simp add: values_contains_def list_ex_iff)
qed

lemma matching_keys_values:
  "values_contains sg df = (matching_keys sg df \<noteq> [])"
proof (cases "filter (\<lambda>(k, v). v = df) sg = []")
  case True
  have "(filter (\<lambda>(k, v). py_eq v df) sg \<noteq> []) = values_contains sg df"
    by (auto simp: values_contains_def list_ex_iff filter_empty_conv)
  then show ?thesis
    using True by (simp add: matching_keys_def)
next
  case False
  then show ?thesis
    using identical_value_contained [OF False] by (simp add: matching_keys_def)
qed

lemma subgroup_default_key:
  assumes "dflt \<noteq> VMissing" and "dict_get sg dflt = Some v"
  shows "subgroup_default sg dflt df m =
     Inr (VMissing, v, dict_setitem m (VStr ''subgroup_default'') dflt)"
  using assms by (simp add: subgroup_default_def)

lemma subgroup_default_factory:
  assumes "df \<noteq> VMissing" and "matching_keys sg df = [k]"
  shows "subgroup_default sg VMissing df m =
     Inr (VMissing, df, dict_setitem m (VStr ''subgroup_default'') k)"
  using assms by (simp add: subgroup_default_def matching_keys_values)

lemma subgroup_default_ambiguous:
  assumes "df \<noteq> VMissing" and "1 < length (matching_keys sg df)"
  shows "subgroup_default sg VMissing df m =
     Inl (ValueError ''Default subgroup is found more than once in the subgroups dict?'')"
proof -
  obtain k k' ks where "matching_keys sg df = k # k' # ks"
    using assms(2) by (cases "matching_keys sg df" rule: list.exhaust)
      (auto simp: neq_Nil_conv)
  then show ?thesis
    using assms(1) by (simp add: subgroup_default_def matching_keys_values)
qed

lemma subgroup_default_none:
  "subgroup_default sg VMissing VMissing m =
     Inr (VMissing, VMissing, dict_setitem m (VStr ''subgroup_default'') VMissing)"
  by (simp add: subgroup_default_def)

lemma subgroup_default_Inr:
  assumes "subgroup_default sg dflt df m = Inr (d1, df1, m3)"
  shows "d1 = VMissing \<and>
     (\<exists>k. m3 = dict_setitem m (VStr ''subgroup_default'') k
        \<and> (dflt \<noteq> VMissing \<longrightarrow> k = dflt \<and> dict_get sg dflt = Some df1)
        \<and> (dflt = VMissing \<and> df \<noteq> VMissing \<longrightarrow> matching_keys sg df = [k] \<and> df1 = df)
        \<and> (dflt = VMissing \<and> df = VMissing \<longrightarrow> k = VMissing \<and> df1 = VMissing))"
  using assms
  by (auto simp: subgroup_default_def split: if_splits option.splits list.splits)

text \<open>
  Claim C4: for a dict of subgroups whose values are dataclasses, a default key together
  with a default factory fails with the \<^verbatim>\<open>ValueError\<close> of line 415, whether or not the
  key is in the dict and the factory among its values. The metadata keyword is absent
  or a dict.
\<close>

theorem C4_both_defaults_conflict:
  assumes "list_all is_dataclass_class (map snd sg)" and "kw_metadata kwargs \<noteq> None"
    and "dflt \<noteq> VMissing" and "default_factory \<noteq> VMissing"
  shows "subgroups sg args dflt default_factory kwargs =
     ([], Inl (ValueError ''Can't pass both default and default_factory!''))"
proof -
  obtain m0 where "kw_metadata kwargs = Some m0"
    using assms(2) by auto
  from subgroups_valid [OF assms(1) this] assms(3,4) show ?thesis
    by simp
qed

theorem C4_both_defaults_conflict_witness:
  "subgroups [(VStr ''a'', VClass ''TypeA'' True), (VStr ''b'', VClass ''TypeB'' True)] []
       (VStr ''a'') (VClass ''TypeB'' True) [] =
     ([], Inl (ValueError ''Can't pass both default and default_factory!''))
   \<and> subgroups [(VStr ''a'', VClass ''TypeA'' True)] []
       (VStr ''zzz'') (VClass ''Other'' True) [] =
     ([], Inl (ValueError ''Can't pass both default and default_factory!''))"
  using C4_both_defaults_conflict [of
      "[(VStr ''a'', VClass ''TypeA'' True), (VStr ''b'', VClass ''TypeB'' True)]" "[]"
      "VStr ''a''" "VClass ''TypeB'' True" "[]"]
    C4_both_defaults_conflict [of "[(VStr ''a'', VClass ''TypeA'' True)]" "[]"
      "VStr ''zzz''" "VClass ''Other'' True" "[]"]
  by (simp add: kw_metadata_def)

text \<open>
  Claim C5: for a dict of subgroups whose values are dataclasses and a default factory
  (and no default key), a factory that equals no value of the dict fails with the
  \<^verbatim>\<open>ValueError\<close> of line 421; a factory that matches more than one key fails with the
  \<^verbatim>\<open>ValueError\<close> of line 440; a factory that matches exactly one key (by identity, and
  by equality when no value is identical) gives a field whose metadata entry
  \<^verbatim>\<open>subgroup_default\<close> is that key. The metadata keyword is absent or a dict, and for the
  last part no keyword \<^verbatim>\<open>choices\<close> is passed.
\<close>

theorem C5_default_factory_matching:
  assumes "list_all is_dataclass_class (map snd sg)" and "kw_metadata kwargs \<noteq> None"
    and "default_factory \<noteq> VMissing"
  shows "(\<not> values_contains sg default_factory \<longrightarrow>
            subgroups sg args VMissing default_factory kwargs =
              ([], Inl (ValueError ''default_factory must be a value in the subgroups dict!'')))
     \<and> (1 < length (matching_keys sg default_factory) \<longrightarrow>
            subgroups sg args VMissing default_factory kwargs =
              ([], Inl (ValueError
                 ''Default subgroup is found more than once in the subgroups dict?'')))
     \<and> (\<forall>k. matching_keys sg default_factory = [k] \<and> kw_get kwargs ''choices'' = None \<longrightarrow>
            (\<exists>f. subgroups sg args VMissing default_factory kwargs = ([], Inr f)
               \<and> metadata_get f ''subgroup_default'' = Some k))"
proof -
  obtain m0 where m0: "kw_metadata kwargs = Some m0"
    using assms(2) by auto
  note sv = subgroups_valid [OF assms(1) m0, of args VMissing default_factory]
  show ?thesis
  proof (intro conjI allI impI)
    assume "\<not> values_contains sg default_factory"
    then show "subgroups sg args VMissing default_factory kwargs =
        ([], Inl (ValueError ''default_factory must be a value in the subgroups dict!''))"
      using sv assms(3) by simp
  next
    assume many: "1 < length (matching_keys sg default_factory)"
    then have "values_contains sg default_factory"
      by (auto simp: matching_keys_values)
    then show "subgroups sg args VMissing default_factory kwargs =
        ([], Inl (ValueError
           ''Default subgroup is found more than once in the subgroups dict?''))"
      using sv assms(3) by (simp add: subgroup_default_ambiguous [OF assms(3) many])
  next
    fix k
    assume a: "matching_keys sg default_factory = [k] \<and> kw_get kwargs ''choices'' = None"
    then have vc: "values_contains sg default_factory"
      by (simp add: matching_keys_values)
    obtain d2 where d2: "action_default kwargs VMissing = Inr d2"
      using action_default_missing by blast
    have "subgroups sg args VMissing default_factory kwargs =
        choice (VDictKeys (map fst sg) # args) VMissing
          (subgroups_kwargs kwargs default_factory
             (dict_setitem (dict_setitem (dict_setitem m0 (VStr ''subgroups'') (VDict sg))
                (VStr ''subgroup_default'') VMissing) (VStr ''subgroup_default'') k))"
      using sv assms(3) vc a by (simp add: subgroup_default_factory del: choice.simps)
    also have "\<dots> = ([], Inr (field_of_kwargs d2
          (dict_setitem (dict_setitem (dict_setitem m0 (VStr ''subgroups'') (VDict sg))
                (VStr ''subgroup_default'') VMissing) (VStr ''subgroup_default'') k)
          (kw_param kwargs ''encoding_fn'' VNone) (kw_param kwargs ''decoding_fn'' VNone)
          (subgroups_kwargs kwargs default_factory
             (dict_setitem (dict_setitem (dict_setitem m0 (VStr ''subgroups'') (VDict sg))
                (VStr ''subgroup_default'') VMissing) (VStr ''subgroup_default'') k))
          (subgroups_choices sg args)))"
      using a by (simp add: choice_subgroups_kwargs d2 del: choice.simps)
    finally show "\<exists>f. subgroups sg args VMissing default_factory kwargs = ([], Inr f)
               \<and> metadata_get f ''subgroup_default'' = Some k"
      by (simp add: metadata_get_subgroup_default)
  qed
qed

theorem C5_default_factory_matching_witness:
  "subgroups [(VStr ''a'', VClass ''TypeA'' True), (VStr ''b'', VClass ''TypeB'' True)] []
       VMissing (VClass ''TypeC'' True) [] =
     ([], Inl (ValueError ''default_factory must be a value in the subgroups dict!''))
   \<and> subgroups [(VStr ''a'', VClass ''TypeA'' True), (VStr ''b'', VClass ''TypeA'' True)] []
       VMissing (VClass ''TypeA'' True) [] =
     ([], Inl (ValueError ''Default subgroup is found more than once in the subgroups dict?''))
   \<and> (\<exists>f. subgroups [(VStr ''a'', VClass ''TypeA'' True), (VStr ''b'', VClass ''TypeB'' True)] []
       VMissing (VClass ''TypeB'' True) [] = ([], Inr f)
         \<and> metadata_get f ''subgroup_default'' = Some (VStr ''b''))"
  using C5_default_factory_matching [of
      "[(VStr ''a'', VClass ''TypeA'' True), (VStr ''b'', VClass ''TypeB'' True)]" "[]"
      "VClass ''TypeC'' True" "[]"]
    C5_default_factory_matching [of
      "[(VStr ''a'', VClass ''TypeA'' True), (VStr ''b'', VClass ''TypeA'' True)]" "[]"
      "VClass ''TypeA'' True" "[]"]
    C5_default_factory_matching [of
      "[(VStr ''a'', VClass ''TypeA'' True), (VStr ''b'', VClass ''TypeB'' True)]" "[]"
      "VClass ''TypeB'' True" "[]"]
  by (simp add: kw_metadata_def values_contains_def matching_keys_def)

lemma subgroups_Inr:
  assumes "subgroups sg args dflt df kwargs = (ws, Inr f)"
  obtains m0 d1 df1 m3 d2 where
    "list_all is_dataclass_class (map snd sg)" "kw_metadata kwargs = Some m0"
    "dflt \<noteq> VMissing \<longrightarrow> hashable dflt \<and> dict_contains sg dflt"
    "subgroup_default sg dflt df
       (dict_setitem (dict_setitem m0 (VStr ''subgroups'') (VDict sg))
          (VStr ''subgroup_default'') dflt) = Inr (d1, df1, m3)"
    "subgroups sg args dflt df kwargs =
       choice (VDictKeys (map fst sg) # args) d1 (subgroups_kwargs kwargs df1 m3)"
    "kw_get kwargs ''choices'' = None" "action_default kwargs d1 = Inr d2" "ws = []"
    "f = field_of_kwargs d2 m3 (kw_param kwargs ''encoding_fn'' VNone)
           (kw_param kwargs ''decoding_fn'' VNone) (subgroups_kwargs kwargs df1 m3)
           (subgroups_choices sg args)"
proof -
  have valid: "list_all is_dataclass_class (map snd sg)"
    using assms subgroups_invalid [of sg args dflt df kwargs] by auto
  obtain m0 where m0: "kw_metadata kwargs = Some m0"
    using assms subgroups_bad_metadata [of kwargs sg args dflt df]
    by (cases "kw_metadata kwargs") auto
  let ?m = "dict_setitem (dict_setitem m0 (VStr ''subgroups'') (VDict sg))
          (VStr ''subgroup_default'') dflt"
  note sv = subgroups_valid [OF valid m0, of args dflt df]
  have key: "dflt \<noteq> VMissing \<longrightarrow> hashable dflt \<and> dict_contains sg dflt"
    using assms sv by (auto split: if_splits)
  have step: "subgroups sg args dflt df kwargs =
      (case subgroup_default sg dflt df ?m of
         Inl e \<Rightarrow> ([], Inl e)
       | Inr (d1, df1, m3) \<Rightarrow>
           choice (VDictKeys (map fst sg) # args) d1 (subgroups_kwargs kwargs df1 m3))"
    using assms sv by (auto split: if_splits)
  obtain d1 df1 m3 where sd: "subgroup_default sg dflt df ?m = Inr (d1, df1, m3)"
    using assms step by (cases "subgroup_default sg dflt df ?m") auto
  have call: "subgroups sg args dflt df kwargs =
      choice (VDictKeys (map fst sg) # args) d1 (subgroups_kwargs kwargs df1 m3)"
    using step sd by simp
  have ch: "kw_get kwargs ''choices'' = None"
    using assms call choice_subgroups_dup_choices [of kwargs _ sg args d1 df1 m3]
    by (cases "kw_get kwargs ''choices''") auto
  note res = choice_subgroups_kwargs [OF ch, of sg args d1 df1 m3]
  obtain d2 where d2: "action_default kwargs d1 = Inr d2"
    using assms call res by (cases "action_default kwargs d1") auto
  have "ws = []" "f = field_of_kwargs d2 m3 (kw_param kwargs ''encoding_fn'' VNone)
           (kw_param kwargs ''decoding_fn'' VNone) (subgroups_kwargs kwargs df1 m3)
           (subgroups_choices sg args)"
    using assms call res d2 by auto
  with that [OF valid m0 key sd call ch d2] show ?thesis
    by blast
qed

text \<open>
  Claim C9: whenever \<^verbatim>\<open>subgroups\<close> returns a field, the metadata entry
  \<^verbatim>\<open>subgroup_default\<close> is \<^verbatim>\<open>MISSING\<close> or a key of the dict of subgroups, and the field
  does not have both a default and a default factory. When a default key is given, the
  entry is that key, \<^verbatim>\<open>choice\<close> is called with the default \<^verbatim>\<open>MISSING\<close> and, as default
  factory, the value of the dict at that key; the field then has no default and that
  default factory, unless an action \<^verbatim>\<open>store_true\<close> or \<^verbatim>\<open>store_false\<close> among the keyword
  arguments makes \<^verbatim>\<open>field\<close> set a default of its own.
\<close>

theorem C9_subgroups_invariant:
  assumes "subgroups sg args dflt default_factory kwargs = (ws, Inr f)"
  shows "(metadata_get f ''subgroup_default'' = Some VMissing
          \<or> (\<exists>k. metadata_get f ''subgroup_default'' = Some k \<and> dict_contains sg k))
     \<and> (field_default f = VMissing \<or> field_default_factory f = VMissing)
     \<and> (dflt \<noteq> VMissing \<longrightarrow>
          (\<exists>v m. dict_get sg dflt = Some v
             \<and> metadata_get f ''subgroup_default'' = Some dflt
             \<and> subgroups sg args dflt default_factory kwargs =
                 choice (VDictKeys (map fst sg) # args) VMissing (subgroups_kwargs kwargs v m)
             \<and> (no_store_action kwargs \<longrightarrow>
                  field_default f = VMissing \<and> field_default_factory f = v)))"
proof -
  from assms obtain m0 d1 df1 m3 d2 where
    key: "dflt \<noteq> VMissing \<longrightarrow> hashable dflt \<and> dict_contains sg dflt"
    and sd: "subgroup_default sg dflt default_factory
       (dict_setitem (dict_setitem m0 (VStr ''subgroups'') (VDict sg))
          (VStr ''subgroup_default'') dflt) = Inr (d1, df1, m3)"
    and call: "subgroups sg args dflt default_factory kwargs =
       choice (VDictKeys (map fst sg) # args) d1 (subgroups_kwargs kwargs df1 m3)"
    and act: "action_default kwargs d1 = Inr d2"
    and f: "f = field_of_kwargs d2 m3 (kw_param kwargs ''encoding_fn'' VNone)
           (kw_param kwargs ''decoding_fn'' VNone) (subgroups_kwargs kwargs df1 m3)
           (subgroups_choices sg args)"
    by (rule subgroups_Inr)
  from subgroup_default_Inr [OF sd] obtain k where
    d1: "d1 = VMissing"
    and m3: "m3 = dict_setitem (dict_setitem (dict_setitem m0 (VStr ''subgroups'') (VDict sg))
          (VStr ''subgroup_default'') dflt) (VStr ''subgroup_default'') k"
    and k1: "dflt \<noteq> VMissing \<longrightarrow> k = dflt \<and> dict_get sg dflt = Some df1"
    and k2: "dflt = VMissing \<and> default_factory \<noteq> VMissing \<longrightarrow>
        matching_keys sg default_factory = [k] \<and> df1 = default_factory"
    and k3: "dflt = VMissing \<and> default_factory = VMissing \<longrightarrow> k = VMissing \<and> df1 = VMissing"
    by blast
  have sdk: "metadata_get f ''subgroup_default'' = Some k"
    by (simp add: f metadata_get_subgroup_default m3)
  have "k = VMissing \<or> dict_contains sg k"
  proof (cases "dflt \<noteq> VMissing")
    case True
    then show ?thesis using key k1 by simp
  next
    case False
    show ?thesis
    proof (cases "default_factory = VMissing")
      case True
      then show ?thesis using False k3 by simp
    next
      case df: False
      then have "k \<in> set (matching_keys sg default_factory)"
        using False k2 by simp
      then show ?thesis
        by (simp add: matching_keys_subset)
    qed
  qed
  then have c1: "metadata_get f ''subgroup_default'' = Some VMissing
          \<or> (\<exists>k. metadata_get f ''subgroup_default'' = Some k \<and> dict_contains sg k)"
    using sdk by auto
  have c2: "field_default f = VMissing \<or> field_default_factory f = VMissing"
    by (simp add: f field_default_factory_subgroups)
  have c3: "dflt \<noteq> VMissing \<longrightarrow>
          (\<exists>v m. dict_get sg dflt = Some v
             \<and> metadata_get f ''subgroup_default'' = Some dflt
             \<and> subgroups sg args dflt default_factory kwargs =
                 choice (VDictKeys (map fst sg) # args) VMissing (subgroups_kwargs kwargs v m)
             \<and> (no_store_action kwargs \<longrightarrow>
                  field_default f = VMissing \<and> field_default_factory f = v))"
  proof
    assume nd: "dflt \<noteq> VMissing"
    have "no_store_action kwargs \<longrightarrow> field_default f = VMissing \<and> field_default_factory f = df1"
      using act d1 by (auto simp: f field_default_factory_subgroups action_default_plain)
    with nd k1 sdk call d1 show "\<exists>v m. dict_get sg dflt = Some v
             \<and> metadata_get f ''subgroup_default'' = Some dflt
             \<and> subgroups sg args dflt default_factory kwargs =
                 choice (VDictKeys (map fst sg) # args) VMissing (subgroups_kwargs kwargs v m)
             \<and> (no_store_action kwargs \<longrightarrow>
                  field_default f = VMissing \<and> field_default_factory f = v)"
      by (intro exI [of _ df1] exI [of _ m3]) simp
  qed
  from c1 c2 c3 show ?thesis
    by blast
qed

theorem C9_subgroups_invariant_witness:
  "metadata_get (projr (snd (subgroups
       [(VStr ''a'', VClass ''TypeA'' True), (VStr ''b'', VClass ''TypeB'' True)] []
       (VStr ''a'') VMissing []))) ''subgroup_default'' = Some (VStr ''a'')
   \<and> field_default (projr (snd (subgroups
       [(VStr ''a'', VClass ''TypeA'' True), (VStr ''b'', VClass ''TypeB'' True)] []
       (VStr ''a'') VMissing []))) = VMissing
   \<and> field_default_factory (projr (snd (subgroups
       [(VStr ''a'', VClass ''TypeA'' True), (VStr ''b'', VClass ''TypeB'' True)] []
       (VStr ''a'') VMissing []))) = VClass ''TypeA'' True"
proof -
  let ?r = "subgroups
       [(VStr ''a'', VClass ''TypeA'' True), (VStr ''b'', VClass ''TypeB'' True)] []
       (VStr ''a'') VMissing []"
  have "?r = ([], Inr (projr (snd ?r)))"
    by (simp add: eval_defs)
  from C9_subgroups_invariant [OF this] show ?thesis
    by (simp add: no_store_action_def del: choice.simps)
qed

section \<open>Resolving twice\<close>

lemma field_default_factory_of_kwargs:
  "field_default_factory (field_of_kwargs d1 m0 enc dec kwargs choices) =
     (if d1 \<noteq> VMissing then VMissing else kw_param kwargs ''default_factory'' VMissing)"
  by (simp add: field_of_kwargs_def)

lemma call_field_resolution:
  assumes "kw_get kw ''metadata'' = Some (VDict m0)"
  shows "resolution (ws, call_field d c kw) =
     (ws, if kw_get kw ''choices'' \<noteq> None
          then Inl (TypeError ''got multiple values for keyword argument'')
          else case action_default kw d of
                 Inl e \<Rightarrow> Inl e
               | Inr d1 \<Rightarrow> Inr (Some c, d1,
                   if d1 \<noteq> VMissing then VMissing
                   else kw_param kw ''default_factory'' VMissing))"
proof (cases "kw_get kw ''choices''")
  case (Some v)
  then show ?thesis
    by (simp add: resolution_def call_field_dup_choices)
next
  case None
  have "kw_param kw ''metadata'' VNone = VDict m0"
    using assms by (simp add: kw_param_def)
  with call_field_eq [OF None, of m0 d c] None show ?thesis
    by (cases "action_default kw d")
       (simp_all add: resolution_def field_default_factory_of_kwargs)
qed

lemma call_field_subgroups_resolution:
  assumes "kw_get kw ''metadata'' = Some (VDict m0)"
  shows "subgroups_resolution (ws, call_field d c kw) =
     (ws, if kw_get kw ''choices'' \<noteq> None
          then Inl (TypeError ''got multiple values for keyword argument'')
          else case action_default kw d of
                 Inl e \<Rightarrow> Inl e
               | Inr d1 \<Rightarrow> Inr (Some c, dict_get m0 (VStr ''subgroup_default''), d1,
                   if d1 \<noteq> VMissing then VMissing
                   else kw_param kw ''default_factory'' VMissing))"
proof (cases "kw_get kw ''choices''")
  case (Some v)
  then show ?thesis
    by (simp add: subgroups_resolution_def call_field_dup_choices)
next
  case None
  have "kw_param kw ''metadata'' VNone = VDict m0"
    using assms by (simp add: kw_param_def)
  with call_field_eq [OF None, of m0 d c] None show ?thesis
    by (cases "action_default kw d")
       (simp_all add: subgroups_resolution_def field_default_factory_of_kwargs
          metadata_get_subgroup_default)
qed

lemma call_field_same:
  assumes "kw_get kw1 ''metadata'' = Some (VDict m1)"
    and "kw_get kw2 ''metadata'' = Some (VDict m2)"
    and "kw_get kw1 ''choices'' = kw_get kw2 ''choices''"
    and "kw_get kw1 ''action'' = kw_get kw2 ''action''"
    and "kw_get kw1 ''default_factory'' = kw_get kw2 ''default_factory''"
  shows "resolution (ws, call_field d c kw1) = resolution (ws, call_field d c kw2)"
proof -
  have act: "action_default kw1 d = action_default kw2 d"
    using assms(4) by (rule action_default_cong)
  have df: "kw_param kw1 ''default_factory'' VMissing = kw_param kw2 ''default_factory'' VMissing"
    using assms(5) by (simp add: kw_param_def)
  show ?thesis
    by (simp only: call_field_resolution [OF assms(1)] call_field_resolution [OF assms(2)]
        act df assms(3))
qed

lemma choice_dict_same:
  obtains e where "choice_dict c1 (kw_set kw ''metadata'' (VDict m)) = Inl e"
      "choice_dict c1 (kw_set kw ''metadata'' (VDict m')) = Inl e"
  | c2 k1 k2 m1 m2 where "choice_dict c1 (kw_set kw ''metadata'' (VDict m)) = Inr (c2, k1)"
      "choice_dict c1 (kw_set kw ''metadata'' (VDict m')) = Inr (c2, k2)"
      "kw_get k1 ''metadata'' = Some (VDict m1)" "kw_get k2 ''metadata'' = Some (VDict m2)"
      "kw_get k1 ''choices'' = kw_get k2 ''choices''"
      "kw_get k1 ''action'' = kw_get k2 ''action''"
      "kw_get k1 ''default_factory'' = kw_get k2 ''default_factory''"
proof (cases "\<exists>cd. c1 = VDict cd")
  case True
  then obtain cd where cd: "c1 = VDict cd"
    by blast
  let ?K = "\<lambda>m. kw_setdefault (kw_setdefault
            (kw_set (kw_setdefault (kw_set kw ''metadata'' (VDict m)) ''metadata'' (VDict []))
               ''metadata'' (VDict (dict_setitem m (VStr ''choice_dict'') (VDict cd))))
            ''encoding_fn'' (VEncodingFn cd)) ''decoding_fn'' (VDecodingFn cd)"
  have md: "kw_metadata (kw_set kw ''metadata'' (VDict m)) = Some m" for m
    by (simp add: kw_metadata_def)
  have cdm: "choice_dict c1 (kw_set kw ''metadata'' (VDict m)) = Inr (VList (map fst cd), ?K m)"
    for m
    unfolding cd by (rule choice_dict_VDict [OF md])
  show ?thesis
    by (rule that(2) [OF cdm [of m] cdm [of m']]) (simp_all split: option.splits)
next
  case False
  then have "\<And>kwargs. choice_dict c1 kwargs = Inr (c1, kwargs)"
    by (intro choice_dict_other) blast
  then show ?thesis
    by (intro that(2) [of c1 "kw_set kw ''metadata'' (VDict m)"
          "kw_set kw ''metadata'' (VDict m')" m m']) simp_all
qed

lemma choice_same:
  "resolution (choice cs dflt (kw_set kw ''metadata'' (VDict m))) =
   resolution (choice cs dflt (kw_set kw ''metadata'' (VDict m')))"
proof (cases cs)
  case Nil
  then show ?thesis by simp
next
  case (Cons c cs')
  show ?thesis
  proof (cases cs')
    case Nil
    obtain ws r where ce: "choice_enum c dflt = (ws, r)"
      by (cases "choice_enum c dflt")
    show ?thesis
    proof (cases r)
      case (Inl e)
      then show ?thesis
        using ce Cons Nil by simp
    next
      case (Inr cd1)
      obtain c1 d1 where cd1: "cd1 = (c1, d1)"
        by (cases cd1)
      show ?thesis
      proof (rule choice_dict_same [of c1 kw m m'])
        fix e
        assume "choice_dict c1 (kw_set kw ''metadata'' (VDict m)) = Inl e"
          "choice_dict c1 (kw_set kw ''metadata'' (VDict m')) = Inl e"
        then show ?thesis
          using ce Cons Nil Inr cd1 by simp
      next
        fix c2 k1 k2 m1 m2
        assume a: "choice_dict c1 (kw_set kw ''metadata'' (VDict m)) = Inr (c2, k1)"
          "choice_dict c1 (kw_set kw ''metadata'' (VDict m')) = Inr (c2, k2)"
          and b: "kw_get k1 ''metadata'' = Some (VDict m1)"
          "kw_get k2 ''metadata'' = Some (VDict m2)"
          "kw_get k1 ''choices'' = kw_get k2 ''choices''"
          "kw_get k1 ''action'' = kw_get k2 ''action''"
          "kw_get k1 ''default_factory'' = kw_get k2 ''default_factory''"
        from call_field_same [OF b, of ws d1 c2] show ?thesis
          using ce Cons Nil Inr cd1 a by simp
      qed
    qed
  next
    case (Cons c' cs'')
    have "resolution ([], call_field dflt (VTuple cs) (kw_set kw ''metadata'' (VDict m))) =
        resolution ([], call_field dflt (VTuple cs) (kw_set kw ''metadata'' (VDict m')))"
      by (rule call_field_same [of _ m _ m']) simp_all
    then show ?thesis
      using \<open>cs = c # cs'\<close> Cons by simp
  qed
qed

lemma subgroup_default_same:
  obtains e where "subgroup_default sg dflt df m = Inl e"
      "subgroup_default sg dflt df m' = Inl e"
  | d1 df1 k where
      "subgroup_default sg dflt df m =
         Inr (d1, df1, dict_setitem m (VStr ''subgroup_default'') k)"
      "subgroup_default sg dflt df m' =
         Inr (d1, df1, dict_setitem m' (VStr ''subgroup_default'') k)"
proof -
  have "(\<exists>e. subgroup_default sg dflt df m = Inl e \<and> subgroup_default sg dflt df m' = Inl e)
      \<or> (\<exists>d1 df1 k.
           subgroup_default sg dflt df m =
             Inr (d1, df1, dict_setitem m (VStr ''subgroup_default'') k)
           \<and> subgroup_default sg dflt df m' =
             Inr (d1, df1, dict_setitem m' (VStr ''subgroup_default'') k))"
    by (auto simp: subgroup_default_def split: option.splits list.splits)
  then show ?thesis
    using that by blast
qed

lemma subgroups_call_resolution:
  "subgroups_resolution (choice (VDictKeys (map fst sg) # args) d1
       (subgroups_kwargs kwargs df1 (dict_setitem m0 (VStr ''subgroup_default'') k))) =
     ([], if kw_get kwargs ''choices'' \<noteq> None
          then Inl (TypeError ''got multiple values for keyword argument'')
          else case action_default kwargs d1 of
                 Inl e \<Rightarrow> Inl e
               | Inr d2 \<Rightarrow> Inr (Some (subgroups_choices sg args), Some k, d2,
                   if d2 \<noteq> VMissing then VMissing else df1))"
proof -
  let ?m = "dict_setitem m0 (VStr ''subgroup_default'') k"
  let ?kw = "subgroups_kwargs kwargs df1 ?m"
  have md: "kw_get ?kw ''metadata'' = Some (VDict ?m)"
    by (simp add: kw_get_subgroups_kwargs)
  have ch: "kw_get ?kw ''choices'' = kw_get kwargs ''choices''"
    by (simp add: kw_get_subgroups_kwargs)
  have act: "action_default ?kw d1 = action_default kwargs d1"
    by (rule action_default_cong) (simp add: kw_get_subgroups_kwargs)
  have df: "kw_param ?kw ''default_factory'' VMissing = df1"
    by (simp add: kw_param_def kw_get_subgroups_kwargs)
  have "choice (VDictKeys (map fst sg) # args) d1 ?kw =
      ([], call_field d1 (subgroups_choices sg args) ?kw)"
    by (simp add: choice_keys subgroups_choices_def del: choice.simps)
  then show ?thesis
    by (cases "action_default kwargs d1")
       (simp_all add: call_field_subgroups_resolution [OF md] ch act df del: choice.simps)
qed

lemma subgroups_same:
  "subgroups_resolution (subgroups sg args dflt df (kw_set kw ''metadata'' (VDict m))) =
   subgroups_resolution (subgroups sg args dflt df (kw_set kw ''metadata'' (VDict m')))"
proof (cases "list_all is_dataclass_class (map snd sg)")
  case False
  then show ?thesis
    by (simp add: subgroups_invalid)
next
  case True
  let ?M = "\<lambda>m. dict_setitem (dict_setitem m (VStr ''subgroups'') (VDict sg))
      (VStr ''subgroup_default'') dflt"
  have md: "kw_metadata (kw_set kw ''metadata'' (VDict m)) = Some m" for m
    by (simp add: kw_metadata_def)
  note sv = subgroups_valid [OF True md, of args dflt df]
  have ch: "kw_get (kw_set kw ''metadata'' (VDict m)) ''choices'' = kw_get kw ''choices''" for m
    by simp
  have act: "action_default (kw_set kw ''metadata'' (VDict m)) d = action_default kw d" for m d
    by (rule action_default_cong) simp
  have last: "subgroups_resolution
      (case subgroup_default sg dflt df (?M m) of
         Inl e \<Rightarrow> ([], Inl e)
       | Inr (d1, df1, m3) \<Rightarrow> choice (VDictKeys (map fst sg) # args) d1
           (subgroups_kwargs (kw_set kw ''metadata'' (VDict m)) df1 m3)) =
    subgroups_resolution
      (case subgroup_default sg dflt df (?M m') of
         Inl e \<Rightarrow> ([], Inl e)
       | Inr (d1, df1, m3) \<Rightarrow> choice (VDictKeys (map fst sg) # args) d1
           (subgroups_kwargs (kw_set kw ''metadata'' (VDict m')) df1 m3))"
  proof (rule subgroup_default_same [of sg dflt df "?M m" "?M m'"])
    fix e
    assume "subgroup_default sg dflt df (?M m) = Inl e"
      "subgroup_default sg dflt df (?M m') = Inl e"
    then show ?thesis
      by simp
  next
    fix d1 df1 k
    assume "subgroup_default sg dflt df (?M m) =
         Inr (d1, df1, dict_setitem (?M m) (VStr ''subgroup_default'') k)"
      "subgroup_default sg dflt df (?M m') =
         Inr (d1, df1, dict_setitem (?M m') (VStr ''subgroup_default'') k)"
    then show ?thesis
      by (simp only: sum.case prod.case subgroups_call_resolution ch act)
  qed
  show ?thesis
    by (simp only: sv if_distrib [where f = subgroups_resolution] last)
qed

text \<open>
  Claim C8: two calls of \<^verbatim>\<open>choice\<close>, or of \<^verbatim>\<open>subgroups\<close>, on equal arguments resolve to
  the same warnings, the same exception or the same canonical choices, in the same
  order, and the same resolved default. The functions read nothing but their arguments,
  and the one argument they write to, the metadata dict, has no influence on the
  resolution: the two calls may even differ in the contents of that dict, as they do
  when the second call is given the dict that the first one has filled.
\<close>

theorem C8_resolution_deterministic:
  assumes "same_but_metadata kwargs kwargs'"
  shows "resolution (choice choices dflt kwargs) = resolution (choice choices dflt kwargs')
     \<and> subgroups_resolution (subgroups sg args dflt default_factory kwargs)
         = subgroups_resolution (subgroups sg args dflt default_factory kwargs')"
  using assms choice_same subgroups_same
  by (auto simp: same_but_metadata_def simp del: choice.simps)

theorem C8_resolution_deterministic_witness:
  "resolution (choice [VEnumClass ''Color'' [''A'', ''B'', ''C'']] (VStr ''B'')
       [(''metadata'', VDict [])])
     = resolution (choice [VEnumClass ''Color'' [''A'', ''B'', ''C'']] (VStr ''B'')
       [(''metadata'', VDict [(VStr ''choice_dict'', VInt 0), (VStr ''seen'', VBool True)])])
   \<and> subgroups_resolution (subgroups
         [(VStr ''a'', VClass ''TypeA'' True), (VStr ''b'', VClass ''TypeB'' True)] []
         (VStr ''a'') VMissing [(''metadata'', VDict [])])
     = subgroups_resolution (subgroups
         [(VStr ''a'', VClass ''TypeA'' True), (VStr ''b'', VClass ''TypeB'' True)] []
         (VStr ''a'') VMissing
         [(''metadata'', VDict [(VStr ''subgroup_default'', VStr ''b'')])])"
proof -
  have "same_but_metadata [(''metadata'', VDict [])]
      [(''metadata'', VDict [(VStr ''choice_dict'', VInt 0), (VStr ''seen'', VBool True)])]"
    unfolding same_but_metadata_def
    by (intro disjI2 exI [of _ "[]"] exI [of _ "[]"]
        exI [of _ "[(VStr ''choice_dict'', VInt 0), (VStr ''seen'', VBool True)]"]) simp
  moreover have "same_but_metadata [(''metadata'', VDict [])]
      [(''metadata'', VDict [(VStr ''subgroup_default'', VStr ''b'')])]"
    unfolding same_but_metadata_def
    by (intro disjI2 exI [of _ "[]"] exI [of _ "[]"]
        exI [of _ "[(VStr ''subgroup_default'', VStr ''b'')]"]) simp
  ultimately show ?thesis
    using C8_resolution_deterministic by blast
qed

end
